theory Spec2Isabelle
  imports Complex_Main "HOL-Library.AList"
begin

section \<open>Numbers\<close>

text \<open>
  The program computes with JavaScript numbers, which are IEEE 754 double precision
  numbers. A finite double is a real number \<open>m * 2 ^ e\<close> with an integer \<open>m\<close> of at most
  53 bits and \<open>e \<ge> -1074\<close>; the result of an arithmetic operation is the exact result
  rounded to the nearest such number, to the one with the even \<open>m\<close> when two are equally
  near.

  \<open>round_even\<close> rounds a real to the nearest integer, ties to even. \<open>quantum x\<close> is the
  distance between neighbouring doubles at \<open>x\<close>: \<open>2 ^ (e - 52)\<close> for \<open>2 ^ e \<le> \<bar>x\<bar> < 2 ^ (e + 1)\<close>,
  and \<open>2 ^ -1074\<close> for the subnormal numbers below \<open>2 ^ -1022\<close>. \<open>fl64 x\<close> is \<open>x\<close> rounded to
  a multiple of its quantum.
\<close>

definition round_even :: "real \<Rightarrow> int" where
  "round_even y =
     (let f = \<lfloor>y\<rfloor>
      in if y - of_int f < 1 / 2 then f
         else if 1 / 2 < y - of_int f then f + 1
         else if even f then f else f + 1)"

definition quantum :: "real \<Rightarrow> real" where
  "quantum x = 2 powr of_int (max \<lfloor>log 2 \<bar>x\<bar>\<rfloor> (- 1022) - 52)"

definition fl64 :: "real \<Rightarrow> real" where
  "fl64 x = (if x = 0 then 0
             else sgn x * of_int (round_even (\<bar>x\<bar> / quantum x)) * quantum x)"

text \<open>
  The four operations on finite numbers, as the exchange mirror uses them for amounts,
  prices and balances. A result of magnitude \<open>2 ^ 1024\<close> or more, which is \<open>Infinity\<close> for
  the program, is not told apart there, and neither is \<open>-0\<close> from \<open>0\<close>. Clock readings and
  time spans are whole numbers of milliseconds far below \<open>2 ^ 53\<close>, on which the
  operations are exact; the mirror adds and subtracts them as they are. The drawdown
  guard, one difference and one quotient compared with a limit, is written over the real
  numbers.
\<close>

definition dadd :: "real \<Rightarrow> real \<Rightarrow> real" where
  "dadd x y = fl64 (x + y)"

definition dsub :: "real \<Rightarrow> real \<Rightarrow> real" where
  "dsub x y = fl64 (x - y)"

definition dmul :: "real \<Rightarrow> real \<Rightarrow> real" where
  "dmul x y = fl64 (x * y)"

definition ddiv :: "real \<Rightarrow> real \<Rightarrow> real" where
  "ddiv x y = fl64 (x / y)"

text \<open>
  The numbers of the market model: a finite double, \<open>NaN\<close>, or one of the infinities. \<open>fl\<close>
  rounds an exact result, which overflows to an infinity from \<open>2 ^ 1024 - 2 ^ 970\<close> on. The
  sign of zero is not modelled: a quotient by zero takes its sign from the numerator.
\<close>

datatype num = NaN | PosInf | NegInf | Fin real

definition fl :: "real \<Rightarrow> num" where
  "fl x = (if 2 ^ 1024 \<le> \<bar>fl64 x\<bar> then (if 0 < x then PosInf else NegInf) else Fin (fl64 x))"

fun nneg :: "num \<Rightarrow> num" where
  "nneg NaN = NaN"
| "nneg PosInf = NegInf"
| "nneg NegInf = PosInf"
| "nneg (Fin x) = Fin (- x)"

fun nadd :: "num \<Rightarrow> num \<Rightarrow> num" where
  "nadd (Fin x) (Fin y) = fl (x + y)"
| "nadd NaN b = NaN"
| "nadd a NaN = NaN"
| "nadd PosInf NegInf = NaN"
| "nadd NegInf PosInf = NaN"
| "nadd PosInf b = PosInf"
| "nadd a PosInf = PosInf"
| "nadd NegInf b = NegInf"
| "nadd a NegInf = NegInf"

definition nsub :: "num \<Rightarrow> num \<Rightarrow> num" where
  "nsub a b = nadd a (nneg b)"

fun nmul :: "num \<Rightarrow> num \<Rightarrow> num" where
  "nmul (Fin x) (Fin y) = fl (x * y)"
| "nmul NaN b = NaN"
| "nmul a NaN = NaN"
| "nmul PosInf (Fin y) = (if y = 0 then NaN else if 0 < y then PosInf else NegInf)"
| "nmul NegInf (Fin y) = (if y = 0 then NaN else if 0 < y then NegInf else PosInf)"
| "nmul (Fin x) PosInf = (if x = 0 then NaN else if 0 < x then PosInf else NegInf)"
| "nmul (Fin x) NegInf = (if x = 0 then NaN else if 0 < x then NegInf else PosInf)"
| "nmul PosInf PosInf = PosInf"
| "nmul NegInf NegInf = PosInf"
| "nmul PosInf NegInf = NegInf"
| "nmul NegInf PosInf = NegInf"

fun ndiv :: "num \<Rightarrow> num \<Rightarrow> num" where
  "ndiv (Fin x) (Fin y) =
     (if y = 0 then (if x = 0 then NaN else if 0 < x then PosInf else NegInf)
      else fl (x / y))"
| "ndiv NaN b = NaN"
| "ndiv a NaN = NaN"
| "ndiv (Fin x) PosInf = Fin 0"
| "ndiv (Fin x) NegInf = Fin 0"
| "ndiv PosInf (Fin y) = (if 0 \<le> y then PosInf else NegInf)"
| "ndiv NegInf (Fin y) = (if 0 \<le> y then NegInf else PosInf)"
| "ndiv PosInf PosInf = NaN"
| "ndiv PosInf NegInf = NaN"
| "ndiv NegInf PosInf = NaN"
| "ndiv NegInf NegInf = NaN"

text \<open>The comparison \<open>a <= b\<close>, which is false when one side is \<open>NaN\<close>.\<close>

fun nle :: "num \<Rightarrow> num \<Rightarrow> bool" where
  "nle (Fin x) (Fin y) = (x \<le> y)"
| "nle NaN b = False"
| "nle a NaN = False"
| "nle NegInf b = True"
| "nle a PosInf = True"
| "nle PosInf b = False"
| "nle a NegInf = False"

text \<open>\<open>Math.min\<close> and \<open>Math.max\<close>, which return \<open>NaN\<close> when an argument is \<open>NaN\<close>.\<close>

definition nmin :: "num \<Rightarrow> num \<Rightarrow> num" where
  "nmin a b = (if a = NaN \<or> b = NaN then NaN else if nle a b then a else b)"

definition nmax :: "num \<Rightarrow> num \<Rightarrow> num" where
  "nmax a b = (if a = NaN \<or> b = NaN then NaN else if nle a b then b else a)"

text \<open>
  \<open>Math.sqrt\<close>, \<open>Math.log\<close> and \<open>Math.pow\<close>. The square root is correctly rounded; the
  logarithm and the power are approximations the language leaves to the implementation,
  and are taken as correctly rounded too. The special cases are those of the language:
  a negative argument of the root or the logarithm gives \<open>NaN\<close>, and so does a negative
  base with a fractional exponent and a base of magnitude 1 with an infinite exponent.
\<close>

fun nsqrt :: "num \<Rightarrow> num" where
  "nsqrt NaN = NaN"
| "nsqrt PosInf = PosInf"
| "nsqrt NegInf = NaN"
| "nsqrt (Fin x) = (if x < 0 then NaN else fl (sqrt x))"

fun nlog :: "num \<Rightarrow> num" where
  "nlog NaN = NaN"
| "nlog PosInf = PosInf"
| "nlog NegInf = NaN"
| "nlog (Fin x) = (if x < 0 then NaN else if x = 0 then NegInf else fl (ln x))"

definition oddInteger :: "real \<Rightarrow> bool" where
  "oddInteger y = (y = of_int \<lfloor>y\<rfloor> \<and> odd \<lfloor>y\<rfloor>)"

fun npow :: "num \<Rightarrow> num \<Rightarrow> num" where
  "npow b NaN = NaN"
| "npow b (Fin y) =
     (if y = 0 then Fin 1
      else (case b of
              NaN \<Rightarrow> NaN
            | PosInf \<Rightarrow> if 0 < y then PosInf else Fin 0
            | NegInf \<Rightarrow> if 0 < y then (if oddInteger y then NegInf else PosInf) else Fin 0
            | Fin x \<Rightarrow>
                if x = 0 then (if 0 < y then Fin 0 else PosInf)
                else if 0 < x then fl (x powr y)
                else if y \<noteq> of_int \<lfloor>y\<rfloor> then NaN
                else if oddInteger y then fl (- (\<bar>x\<bar> powr y))
                else fl (\<bar>x\<bar> powr y)))"
| "npow b PosInf =
     (case b of
        NaN \<Rightarrow> NaN
      | PosInf \<Rightarrow> PosInf
      | NegInf \<Rightarrow> PosInf
      | Fin x \<Rightarrow> if 1 < \<bar>x\<bar> then PosInf else if \<bar>x\<bar> = 1 then NaN else Fin 0)"
| "npow b NegInf =
     (case b of
        NaN \<Rightarrow> NaN
      | PosInf \<Rightarrow> Fin 0
      | NegInf \<Rightarrow> Fin 0
      | Fin x \<Rightarrow> if 1 < \<bar>x\<bar> then Fin 0 else if \<bar>x\<bar> = 1 then NaN else PosInf)"

text \<open>Truthiness of a number: \<open>0\<close> and \<open>NaN\<close> are falsy.\<close>

definition ntruthy :: "num \<Rightarrow> bool" where
  "ntruthy a = (case a of NaN \<Rightarrow> False | Fin x \<Rightarrow> x \<noteq> 0 | PosInf \<Rightarrow> True | NegInf \<Rightarrow> True)"

section \<open>Market model: computeQuote\<close>

text \<open>\<open>IMarketDynamicParameters\<close> and \<open>IMarketModelParameters\<close>.\<close>

record MarketDynamicParameters =
  A :: num
  k :: num

record MarketModelParameters =
  sigma :: num
  mu :: num
  gamma :: num
  buy :: MarketDynamicParameters
  sell :: MarketDynamicParameters
  midPrice :: num
  inventory :: num
  includeDrift :: bool

record Terms =
  lnTerm :: num
  sqrtTerm :: num

record Quote =
  bid :: num
  ask :: num

text \<open>\<open>computeTerms\<close>, operation by operation in the order the program evaluates them.\<close>

definition computeTerms :: "num \<Rightarrow> num \<Rightarrow> num \<Rightarrow> num \<Rightarrow> Terms" where
  "computeTerms sg gm kk aa =
     \<lparr> lnTerm = nmul (ndiv (Fin 1) gm) (nlog (nadd (Fin 1) (ndiv gm kk))),
       sqrtTerm = nsqrt (nmul (nmax (Fin 0)
                                 (ndiv (nmul (nmul sg sg) gm) (nmul (nmul (Fin 2) kk) aa)))
                              (npow (nadd (Fin 1) (ndiv gm kk)) (nadd (Fin 1) (ndiv kk gm)))) \<rparr>"

text \<open>
  The sanity check \<open>sigma && gamma && buy && sell && buy.A && buy.k && sell.A && sell.k\<close>;
  the two parameter objects are always present.
\<close>

definition sanity :: "MarketModelParameters \<Rightarrow> bool" where
  "sanity p = (ntruthy (sigma p) \<and> ntruthy (gamma p) \<and> ntruthy (A (buy p)) \<and> ntruthy (k (buy p))
               \<and> ntruthy (A (sell p)) \<and> ntruthy (k (sell p)))"

definition bidPriceDistance :: "MarketModelParameters \<Rightarrow> num" where
  "bidPriceDistance p =
     (let b = computeTerms (sigma p) (gamma p) (k (buy p)) (A (buy p));
          bidMultiplier = ndiv (nadd (nmul (Fin 2) (inventory p)) (Fin 1)) (Fin 2);
          bidMultiplier = (if includeDrift p
                           then nadd bidMultiplier
                                  (ndiv (nneg (mu p)) (nmul (nmul (gamma p) (sigma p)) (sigma p)))
                           else bidMultiplier)
      in nadd (lnTerm b) (nmul bidMultiplier (sqrtTerm b)))"

definition askPriceDistance :: "MarketModelParameters \<Rightarrow> num" where
  "askPriceDistance p =
     (let a = computeTerms (sigma p) (gamma p) (k (sell p)) (A (sell p));
          askMultiplier = ndiv (nneg (nsub (nmul (Fin 2) (inventory p)) (Fin 1))) (Fin 2);
          askMultiplier = (if includeDrift p
                           then nadd askMultiplier
                                  (ndiv (mu p) (nmul (nmul (gamma p) (sigma p)) (sigma p)))
                           else askMultiplier)
      in nadd (lnTerm a) (nmul askMultiplier (sqrtTerm a)))"

definition computeQuote :: "MarketModelParameters \<Rightarrow> Quote" where
  "computeQuote p =
     (if \<not> sanity p then \<lparr> bid = Fin 0, ask = Fin 0 \<rparr>
      else \<lparr> bid = nmin (midPrice p) (nsub (midPrice p) (bidPriceDistance p)),
             ask = nmax (midPrice p) (nadd (midPrice p) (askPriceDistance p)) \<rparr>)"

section \<open>Drawdown guard: checkDrawdown\<close>







section \<open>Exchange state mirror: data\<close>

datatype OrderSide = Buy | Sell

datatype OrderType = Limit | Market

text \<open>A price level is a number or \<open>Infinity\<close> (the default of a buy order).\<close>

datatype PriceLevel = Finite real | Infinity

text \<open>
  \<open>IOrder\<close>. The optional fields are \<open>None\<close> when they are \<open>undefined\<close>. The status is
  the string the code compares with \<open>"open"\<close>.
\<close>

record Order =
  order_id :: string
  timestamp :: real
  timestampClosed :: "real option"
  status :: string
  market :: string
  order_type :: OrderType
  side :: OrderSide
  price :: real
  amount :: real
  fee :: real
  filled :: real
  remaining :: real
  autoCancel :: "real option"
  autoCancelAtFillPercentage :: "real option"
  autoCancelAtPriceLevel :: "PriceLevel option"
  sticky :: "bool option"

text \<open>\<open>IBalance\<close> as stored in the state, and the \<open>Balance\<close> object \<open>getBalance\<close> returns.\<close>

record IBalance =
  free :: real
  used :: real

record Balance =
  raw_free :: real
  raw_used :: real
  locked :: real

definition Balance_free :: "Balance \<Rightarrow> real" where
  "Balance_free b = max 0 (dsub (raw_free b) (locked b))"

text \<open>A stored ticker: the six numbers \<open>fetchTickers\<close> delivers.\<close>

record Ticker =
  ticker_timestamp :: real
  ticker_bid :: real
  ticker_ask :: real
  ticker_last :: real
  baseVolume :: real
  quoteVolume :: real

record Candle =
  candle_timestamp :: real
  candle_open :: real
  candle_high :: real
  candle_low :: real
  candle_close :: real
  candle_volume :: real

text \<open>\<open>IOrderBook\<close>: each entry is the pair \<open>[price, amount]\<close>.\<close>

record OrderBook =
  bids :: "(real \<times> real) list"
  asks :: "(real \<times> real) list"

text \<open>
  \<open>ICreateOrderOptions\<close>. An optional field is \<open>None\<close> when the key is absent, so that
  \<open>Object.assign\<close> keeps the default. \<open>autoCancelAtFillPercentage\<close> is also passed with
  the value \<open>undefined\<close> (by the sticky update, from an order without the field), which
  overrides the default: \<open>Some None\<close>. \<open>autoCancel\<close> is taken in milliseconds (the source
  converts a period string first).
\<close>

record CreateOrderOptions =
  opt_market :: string
  opt_type :: OrderType
  opt_side :: OrderSide
  opt_amount :: real
  opt_price :: "real option"
  opt_autoCancel :: "real option"
  opt_autoCancelAtFillPercentage :: "real option option"
  opt_autoCancelAtPriceLevel :: "PriceLevel option"
  opt_sticky :: "bool option"

text \<open>
  The remote exchange client (\<open>ICcxtExchange\<close>), as far as the mirror calls it. Each
  call that can reject returns \<open>None\<close> when it does.
\<close>

record Remote =
  remote_createOrder :: "string \<Rightarrow> OrderType \<Rightarrow> OrderSide \<Rightarrow> real \<Rightarrow> real \<Rightarrow> string option"
  remote_cancelOrder :: "Order \<Rightarrow> bool"
  remote_getMinDealAmount :: "string \<Rightarrow> real"
  remote_retrieveCandles :: "string \<Rightarrow> Candle list option option"
  remote_fetchTickers :: "string list option \<Rightarrow> (string \<rightharpoonup> Ticker) option"
  remote_fetchOrderBook :: "string list \<Rightarrow> (string \<rightharpoonup> OrderBook) option"
  remote_fetchOpenOrders :: "string option \<Rightarrow> Order list option"

text \<open>
  The exchange object: the members \<open>_exchange\<close>, \<open>_dryRun\<close>, \<open>_slippage\<close> and the fields
  of \<open>_state\<close> the modelled methods use. The three order records are association lists in
  insertion order, as \<open>Object.keys\<close> enumerates them.
\<close>

record Exchange =
  ccxtExchange :: "Remote option"
  dryRun :: bool
  slippage :: real
  simulation :: bool
  reserves :: "string \<rightharpoonup> real"
  minDealAmounts :: "string \<rightharpoonup> real"
  lockdown :: bool
  cancelledOrders :: "(string \<times> Order) list"
  closedOrders :: "(string \<times> Order) list"
  openOrders :: "(string \<times> Order) list"
  balances :: "string \<rightharpoonup> IBalance"
  tickers :: "string \<rightharpoonup> Ticker"
  orderBooks :: "string \<rightharpoonup> OrderBook"
  state_fee :: real
  forceAutoCancel :: bool

datatype Error =
    LockdownMode
  | AutocancelObligatory
  | AmountNotPositive
  | InvalidPrice
  | AlreadyClosed
  | TickerUnavailable
  | TypeError
  | RemoteRejected

section \<open>Exchange state mirror: helpers\<close>

text \<open>\<open>s.split("/")\<close> and the read \<open>xs[i]\<close>, which is \<open>undefined\<close> out of range.\<close>

fun js_split :: "char \<Rightarrow> string \<Rightarrow> string list" where
  "js_split c [] = [[]]"
| "js_split c (x # xs) =
     (if x = c then [] # js_split c xs
      else (case js_split c xs of [] \<Rightarrow> [[x]] | w # ws \<Rightarrow> (x # w) # ws))"

definition js_index :: "'a list \<Rightarrow> nat \<Rightarrow> 'a option" where
  "js_index xs i = (if i < length xs then Some (xs ! i) else None)"

text \<open>Truthiness of an optional number, an optional boolean and an optional string.\<close>

definition truthy_num :: "real option \<Rightarrow> bool" where
  "truthy_num x = (case x of None \<Rightarrow> False | Some v \<Rightarrow> v \<noteq> 0)"

definition truthy_bool :: "bool option \<Rightarrow> bool" where
  "truthy_bool x = (case x of None \<Rightarrow> False | Some v \<Rightarrow> v)"

definition truthy_str :: "string option \<Rightarrow> bool" where
  "truthy_str x = (case x of None \<Rightarrow> False | Some v \<Rightarrow> v \<noteq> [])"

text \<open>\<open>market && order.market !== market\<close>.\<close>

definition otherMarket :: "string option \<Rightarrow> Order \<Rightarrow> bool" where
  "otherMarket m ord = (case m of None \<Rightarrow> False | Some v \<Rightarrow> v \<noteq> [] \<and> market ord \<noteq> v)"

section \<open>Exchange state mirror: balances\<close>

text \<open>The lazy creation \<open>if (!balances[currency]) balances[currency] = {free: 0, used: 0}\<close>.\<close>

definition ensureBalance :: "string \<Rightarrow> Exchange \<Rightarrow> Exchange" where
  "ensureBalance c s =
     (case balances s c of
        None \<Rightarrow> s\<lparr>balances := (balances s)(c \<mapsto> \<lparr> free = 0, used = 0 \<rparr>)\<rparr>
      | Some b \<Rightarrow> s)"

definition balanceOf :: "Exchange \<Rightarrow> string \<Rightarrow> IBalance" where
  "balanceOf s c = (case balances s c of None \<Rightarrow> \<lparr> free = 0, used = 0 \<rparr> | Some b \<Rightarrow> b)"

definition reserveOf :: "Exchange \<Rightarrow> string \<Rightarrow> real" where
  "reserveOf s c = (case reserves s c of None \<Rightarrow> 0 | Some r \<Rightarrow> r)"

definition private_deposit :: "string \<Rightarrow> real \<Rightarrow> Exchange \<Rightarrow> Exchange" where
  "private_deposit c amt s =
     (let s1 = ensureBalance c s; b = balanceOf s1 c
      in s1\<lparr>balances := (balances s1)(c \<mapsto> b\<lparr>free := dadd (free b) amt\<rparr>)\<rparr>)"

definition private_withdraw :: "string \<Rightarrow> real \<Rightarrow> Exchange \<Rightarrow> Exchange" where
  "private_withdraw c amt s =
     (let s1 = ensureBalance c s; b = balanceOf s1 c
      in s1\<lparr>balances := (balances s1)(c \<mapsto> b\<lparr>free := dsub (free b) amt\<rparr>)\<rparr>)"

definition private_withdrawFromUsed :: "string \<Rightarrow> real \<Rightarrow> Exchange \<Rightarrow> Exchange" where
  "private_withdrawFromUsed c amt s =
     (let s1 = ensureBalance c s; b = balanceOf s1 c
      in s1\<lparr>balances := (balances s1)(c \<mapsto> b\<lparr>used := dsub (used b) amt\<rparr>)\<rparr>)"

definition private_reserve :: "string \<Rightarrow> real \<Rightarrow> Exchange \<Rightarrow> Exchange" where
  "private_reserve c amt s =
     (let s1 = ensureBalance c s; b = balanceOf s1 c;
          reserve = reserveOf s1 c;
          amt1 = min amt (max (dsub (free b) reserve) 0)
      in s1\<lparr>balances := (balances s1)(c \<mapsto> b\<lparr>free := dsub (free b) amt1, used := dadd (used b) amt1\<rparr>)\<rparr>)"

definition private_release :: "string \<Rightarrow> real \<Rightarrow> Exchange \<Rightarrow> Exchange" where
  "private_release c amt s =
     (let s1 = ensureBalance c s; b = balanceOf s1 c;
          amt1 = min amt (used b)
      in s1\<lparr>balances := (balances s1)(c \<mapsto> b\<lparr>free := dadd (free b) amt1, used := dsub (used b) amt1\<rparr>)\<rparr>)"

text \<open>
  \<open>getBalance\<close>: a market name is cut down to its base currency first. The argument is
  \<open>None\<close> when the caller passes \<open>undefined\<close> (the quote currency of a market name
  without a slash), and \<open>indexOf\<close> on it raises a TypeError.
\<close>

definition currencyOf :: "string \<Rightarrow> string" where
  "currencyOf currencyOrMarket =
     (if CHR ''/'' \<in> set currencyOrMarket
      then (case js_split CHR ''/'' currencyOrMarket of [] \<Rightarrow> currencyOrMarket | w # ws \<Rightarrow> w)
      else currencyOrMarket)"

definition getBalance :: "string option \<Rightarrow> Exchange \<Rightarrow> (Error + Balance) \<times> Exchange" where
  "getBalance currencyOrMarket s =
     (case currencyOrMarket of
        None \<Rightarrow> (Inl TypeError, s)
      | Some cm \<Rightarrow>
          (let c = currencyOf cm;
               s1 = ensureBalance c s;
               b = balanceOf s1 c
           in (Inr \<lparr> raw_free = free b, raw_used = used b,
                     locked = min (reserveOf s1 c) (free b) \<rparr>, s1)))"

definition quoteCurrencyOf :: "string \<Rightarrow> string option" where
  "quoteCurrencyOf m = js_index (js_split CHR ''/'' m) 1"

definition baseCurrencyOf :: "string \<Rightarrow> string option" where
  "baseCurrencyOf m = js_index (js_split CHR ''/'' m) 0"

section \<open>Exchange state mirror: tickers, order book, minimum deal amount\<close>

definition getTicker :: "string \<Rightarrow> Exchange \<Rightarrow> Error + Ticker" where
  "getTicker m s = (case tickers s m of None \<Rightarrow> Inl TickerUnavailable | Some t \<Rightarrow> Inr t)"

definition getOrderBook :: "string \<Rightarrow> Exchange \<Rightarrow> OrderBook" where
  "getOrderBook m s = (case orderBooks s m of None \<Rightarrow> \<lparr> bids = [], asks = [] \<rparr> | Some ob \<Rightarrow> ob)"

definition getMinDealAmount :: "string \<Rightarrow> Exchange \<Rightarrow> real" where
  "getMinDealAmount m s =
     (if truthy_num (minDealAmounts s m) then (case minDealAmounts s m of None \<Rightarrow> 0 | Some v \<Rightarrow> v)
      else (case ccxtExchange s of Some r \<Rightarrow> remote_getMinDealAmount r m | None \<Rightarrow> 1))"

text \<open>\<open>lodash.merge\<close> of ticker maps: an entry of the source replaces the local one.\<close>

definition merge_tickers ::
  "(string \<rightharpoonup> Ticker) \<Rightarrow> (string \<rightharpoonup> Ticker) \<Rightarrow> (string \<rightharpoonup> Ticker)" where
  "merge_tickers dst src = dst ++ src"

text \<open>
  \<open>syncTickers\<close>. The loop over \<open>markets\<close> raises a TypeError when \<open>markets\<close> is
  \<open>undefined\<close>; every exception is caught and gives \<open>false\<close>.
\<close>

definition syncTickers :: "string list option \<Rightarrow> Exchange \<Rightarrow> bool \<times> Exchange" where
  "syncTickers markets s =
     (case ccxtExchange s of
        None \<Rightarrow> (True, s)
      | Some r \<Rightarrow>
          (case remote_fetchTickers r markets of
             None \<Rightarrow> (False, s)
           | Some fetched \<Rightarrow>
               (case markets of
                  None \<Rightarrow> (False, s)
                | Some ms \<Rightarrow>
                    if list_ex (\<lambda>m. fetched m = None) ms then (False, s)
                    else (let s1 = s\<lparr>tickers := fetched\<rparr>
                          in (True, s1\<lparr>tickers := merge_tickers (tickers s1) fetched\<rparr>)))))"

definition syncOrderBook :: "string list \<Rightarrow> Exchange \<Rightarrow> bool \<times> Exchange" where
  "syncOrderBook markets s =
     (case ccxtExchange s of
        None \<Rightarrow> (True, s)
      | Some r \<Rightarrow>
          if simulation s then (True, s)
          else (case remote_fetchOrderBook r markets of
                  None \<Rightarrow> (False, s)
                | Some books \<Rightarrow> (True, s\<lparr>orderBooks := orderBooks s ++ books\<rparr>)))"

definition retrieveLatestCandle :: "string \<Rightarrow> Exchange \<Rightarrow> Error + Candle option" where
  "retrieveLatestCandle m s =
     (case ccxtExchange s of
        None \<Rightarrow> Inl TypeError
      | Some r \<Rightarrow>
          (case remote_retrieveCandles r m of
             None \<Rightarrow> Inl RemoteRejected
           | Some None \<Rightarrow> Inr None
           | Some (Some cs) \<Rightarrow> Inr (case cs of [] \<Rightarrow> None | c # rest \<Rightarrow> Some c)))"

section \<open>Exchange state mirror: orders\<close>

text \<open>
  \<open>createOrder\<close>, second half: from the balance lookups to the stored order. The
  arguments are the values the first half has fixed: the clock reading, the generated
  identifier, and the type, side, amount, price and flags of the order.
\<close>

definition placeOrder ::
  "real \<Rightarrow> string \<Rightarrow> CreateOrderOptions \<Rightarrow> real \<Rightarrow> bool \<Rightarrow> real option \<Rightarrow> PriceLevel
     \<Rightarrow> Exchange \<Rightarrow> (Error + string option) \<times> Exchange" where
  "placeOrder now newId options prc stk fillPercentage priceLevel s =
     (let mkt = opt_market options; typ = opt_type options; sd = opt_side options;
          amt = opt_amount options
      in case getBalance (quoteCurrencyOf mkt) s of
           (Inl e, s1) \<Rightarrow> (Inl e, s1)
         | (Inr quoteBalance, s1) \<Rightarrow>
        (case getBalance (baseCurrencyOf mkt) s1 of
           (Inl e, s2) \<Rightarrow> (Inl e, s2)
         | (Inr baseBalance, s2) \<Rightarrow>
        (case (quoteCurrencyOf mkt, baseCurrencyOf mkt) of
           (Some quoteCurrency, Some baseCurrency) \<Rightarrow>
             (let ord = \<lparr> order_id = newId, timestamp = now, timestampClosed = None,
                          status = ''open'', market = mkt, order_type = typ, side = sd,
                          price = prc, amount = amt, fee = dmul amt (state_fee s2), filled = 0,
                          remaining = amt, autoCancel = opt_autoCancel options,
                          autoCancelAtFillPercentage = fillPercentage,
                          autoCancelAtPriceLevel = Some priceLevel, sticky = Some stk \<rparr>;
                  ord1 = (if sd = Buy
                          then ord\<lparr>amount := ddiv (min (dmul prc amt) (Balance_free quoteBalance)) prc\<rparr>
                          else ord\<lparr>amount := min (Balance_free baseBalance) amt\<rparr>);
                  s3 = (if sd = Buy
                        then (if typ = Limit
                              then private_reserve quoteCurrency (dmul (amount ord1) prc) s2
                              else private_deposit baseCurrency
                                     (dmul (dmul amt (dsub 1 (state_fee s2))) (dsub 1 (slippage s2)))
                                     (private_withdraw quoteCurrency (dmul amt prc) s2))
                        else (if typ = Limit
                              then private_reserve baseCurrency (amount ord1) s2
                              else private_deposit quoteCurrency
                                     (dmul (dmul (dmul prc amt) (dsub 1 (state_fee s2))) (dsub 1 (slippage s2)))
                                     (private_withdraw baseCurrency amt s2)));
                  remoteId = (case ccxtExchange s3 of
                                None \<Rightarrow> Some None
                              | Some r \<Rightarrow>
                                  if \<not> simulation s3 \<and> \<not> dryRun s3
                                  then (case remote_createOrder r mkt typ sd amt prc of
                                          None \<Rightarrow> None
                                        | Some rid \<Rightarrow> Some (Some rid))
                                  else Some None)
              in case remoteId of
                   None \<Rightarrow> (Inr None, s3)
                 | Some rid \<Rightarrow>
                     (let ord2 = (case rid of None \<Rightarrow> ord1 | Some i \<Rightarrow> ord1\<lparr>order_id := i\<rparr>);
                          s4 = (if typ = Market
                                then s3\<lparr>closedOrders :=
                                          AList.update (order_id ord2) ord2 (closedOrders s3)\<rparr>
                                else s3\<lparr>openOrders :=
                                          AList.update (order_id ord2) ord2 (openOrders s3)\<rparr>)
                      in (Inr (Some (order_id ord2)), s4)))
         | _ \<Rightarrow> (Inl TypeError, s2))))"

text \<open>
  \<open>createOrder\<close>: the clock reading and the identifier \<open>_generateOrderId\<close> returns are
  parameters. The result is the thrown error, or the returned identifier (\<open>None\<close> when the
  remote exchange rejected the order and the method returns nothing).
\<close>

definition createOrder ::
  "real \<Rightarrow> string \<Rightarrow> CreateOrderOptions \<Rightarrow> Exchange \<Rightarrow> (Error + string option) \<times> Exchange" where
  "createOrder now newId options s =
     (case getTicker (opt_market options) s of
        Inl e \<Rightarrow> (Inl e, s)
      | Inr ticker \<Rightarrow>
          (let sd = opt_side options; typ = opt_type options;
               prc = (case opt_price options of
                        None \<Rightarrow> (if sd = Buy then ticker_bid ticker else ticker_ask ticker)
                      | Some p \<Rightarrow> p);
               stk = (case opt_sticky options of None \<Rightarrow> False | Some b \<Rightarrow> b);
               fillPercentage = (case opt_autoCancelAtFillPercentage options of
                                   None \<Rightarrow> Some 1 | Some v \<Rightarrow> v);
               priceLevel = (case opt_autoCancelAtPriceLevel options of
                               None \<Rightarrow> (if sd = Buy then Infinity else Finite 0)
                             | Some l \<Rightarrow> l)
           in if lockdown s then (Inl LockdownMode, s)
              else if \<not> truthy_num (opt_autoCancel options) \<and> forceAutoCancel s
              then (Inl AutocancelObligatory, s)
              else (let stk1 = (if typ = Market \<and> stk then False else stk);
                        prc1 = (if typ = Market
                                then (if sd = Buy then ticker_ask ticker else ticker_bid ticker)
                                else prc)
                    in if opt_amount options \<le> 0 then (Inl AmountNotPositive, s)
                       else if prc1 \<le> 0 then (Inl InvalidPrice, s)
                       else placeOrder now newId options prc1 stk1 fillPercentage priceLevel s)))"

text \<open>
  \<open>cancelOrder\<close>. The order object is stored in the cancelled and the closed record by
  reference, so the assignment of \<open>timestampClosed\<close> shows in both.
\<close>

definition cancelOrder :: "real \<Rightarrow> Order \<Rightarrow> Exchange \<Rightarrow> (Error + unit) \<times> Exchange" where
  "cancelOrder now ord s =
     (if lockdown s then (Inl LockdownMode, s)
      else if status ord \<noteq> ''open'' then (Inl AlreadyClosed, s)
      else (case getBalance (quoteCurrencyOf (market ord)) s of
              (Inl e, s1) \<Rightarrow> (Inl e, s1)
            | (Inr quoteBalance, s1) \<Rightarrow>
           (case getBalance (baseCurrencyOf (market ord)) s1 of
              (Inl e, s2) \<Rightarrow> (Inl e, s2)
            | (Inr baseBalance, s2) \<Rightarrow>
           (case (quoteCurrencyOf (market ord), baseCurrencyOf (market ord)) of
              (Some quoteCurrency, Some baseCurrency) \<Rightarrow>
                if \<not> simulation s2 \<and> \<not> dryRun s2
                   \<and> \<not> (case ccxtExchange s2 of None \<Rightarrow> False
                                               | Some r \<Rightarrow> remote_cancelOrder r ord)
                then (Inr (), s2)
                else (let s3 = (if side ord = Buy
                                then private_release quoteCurrency (dmul (price ord) (amount ord)) s2
                                else private_release baseCurrency (amount ord) s2);
                          ord1 = (if filled ord > 0 then ord\<lparr>timestampClosed := Some now\<rparr>
                                  else ord);
                          s4 = s3\<lparr>cancelledOrders :=
                                    AList.update (order_id ord) ord1 (cancelledOrders s3)\<rparr>;
                          s5 = (if filled ord > 0
                                then s4\<lparr>closedOrders :=
                                          AList.update (order_id ord) ord1 (closedOrders s4)\<rparr>
                                else s4)
                      in (Inr (), s5\<lparr>openOrders := AList.delete (order_id ord) (openOrders s5)\<rparr>))
            | _ \<Rightarrow> (Inl TypeError, s2)))))"

text \<open>\<open>getOpenOrders(market, undefined, filter)\<close>.\<close>

definition getOpenOrders :: "string option \<Rightarrow> (Order \<Rightarrow> bool) \<Rightarrow> Exchange \<Rightarrow> Order list" where
  "getOpenOrders m flt s =
     map snd (filter (\<lambda>(i, ord). \<not> otherMarket m ord \<and> flt ord) (openOrders s))"

text \<open>
  \<open>_checkFullfillOrder\<close>: the fulfilment of one open limit order in simulation. The buy
  branch assigns \<open>timestampClosed\<close>; the sell branch has no such assignment.
\<close>

definition checkFullfillOrder :: "real \<Rightarrow> Order \<Rightarrow> Exchange \<Rightarrow> (Error + unit) \<times> Exchange" where
  "checkFullfillOrder now ord s =
     (if order_type ord \<noteq> Limit then (Inr (), s)
      else (case getBalance (quoteCurrencyOf (market ord)) s of
              (Inl e, s1) \<Rightarrow> (Inl e, s1)
            | (Inr quoteBalance, s1) \<Rightarrow>
           (case getBalance (baseCurrencyOf (market ord)) s1 of
              (Inl e, s2) \<Rightarrow> (Inl e, s2)
            | (Inr baseBalance, s2) \<Rightarrow>
           (case (quoteCurrencyOf (market ord), baseCurrencyOf (market ord)) of
              (Some quoteCurrency, Some baseCurrency) \<Rightarrow>
                (case retrieveLatestCandle (market ord) s2 of
                   Inl e \<Rightarrow> (Inl e, s2)
                 | Inr None \<Rightarrow> (Inr (), s2)
                 | Inr (Some latestCandle) \<Rightarrow>
                     if candle_volume latestCandle \<le> 0
                        \<or> timestamp ord \<ge> candle_timestamp latestCandle
                     then (Inr (), s2)
                     else if side ord = Buy \<and> candle_low latestCandle < price ord
                     then (let s3 = private_withdrawFromUsed quoteCurrency
                                      (dmul (amount ord) (price ord)) s2;
                               s4 = private_deposit baseCurrency
                                      (dmul (amount ord) (dsub 1 (state_fee s3))) s3;
                               ord1 = ord\<lparr>status := ''closed'', filled := amount ord,
                                          remaining := 0, timestampClosed := Some now\<rparr>
                           in (Inr (),
                               s4\<lparr>openOrders := AList.delete (order_id ord) (openOrders s4),
                                  closedOrders :=
                                    AList.update (order_id ord) ord1 (closedOrders s4)\<rparr>))
                     else if side ord = Sell \<and> candle_high latestCandle > price ord
                     then (let s3 = private_withdrawFromUsed baseCurrency (amount ord) s2;
                               s4 = private_deposit quoteCurrency
                                      (dmul (dmul (amount ord) (price ord)) (dsub 1 (state_fee s3))) s3;
                               ord1 = ord\<lparr>status := ''closed'', filled := amount ord,
                                          remaining := 0\<rparr>
                           in (Inr (),
                               s4\<lparr>openOrders := AList.delete (order_id ord) (openOrders s4),
                                  closedOrders :=
                                    AList.update (order_id ord) ord1 (closedOrders s4)\<rparr>))
                     else (Inr (), s2))
            | _ \<Rightarrow> (Inl TypeError, s2)))))"

text \<open>
  The new price of a sticky order (\<open>_updateStickyOrder\<close>, "compute the new price"): the
  ticker's best bid or ask, or the second entry of the order book when the order alone
  is the first entry.
\<close>

definition stickyNewPrice :: "Ticker \<Rightarrow> OrderBook \<Rightarrow> Order \<Rightarrow> real" where
  "stickyNewPrice ticker orderBook ord =
     (let newPrice = (if side ord = Buy then ticker_bid ticker else ticker_ask ticker)
      in if side ord = Buy \<and> length (bids orderBook) > 1
         then (let bestBidPrice = fst (bids orderBook ! 0);
                   bestBidAmount = snd (bids orderBook ! 0);
                   secondBestBidPrice = fst (bids orderBook ! 1)
               in if remaining ord \<ge> bestBidAmount \<and> price ord = bestBidPrice
                  then secondBestBidPrice else newPrice)
         else if side ord = Sell \<and> length (asks orderBook) > 1
         then (let bestAskPrice = fst (asks orderBook ! 0);
                   bestAskAmount = snd (asks orderBook ! 0);
                   secondBestAskPrice = fst (asks orderBook ! 1)
               in if remaining ord \<ge> bestAskAmount \<and> price ord = bestAskPrice
                  then secondBestAskPrice else newPrice)
         else newPrice)"

text \<open>The options of the replacement order the sticky update passes to \<open>createOrder\<close>.\<close>

definition stickyReplacement :: "Order \<Rightarrow> real \<Rightarrow> real option \<Rightarrow> CreateOrderOptions" where
  "stickyReplacement ord newPrice newAutoCancel =
     \<lparr> opt_market = market ord, opt_type = Limit, opt_side = side ord,
       opt_amount = remaining ord, opt_price = Some newPrice,
       opt_autoCancel = newAutoCancel,
       opt_autoCancelAtFillPercentage = Some (autoCancelAtFillPercentage ord),
       opt_autoCancelAtPriceLevel = None, opt_sticky = Some True \<rparr>"

text \<open>
  \<open>order.autoCancel ? order.autoCancel - (this.currentTime - order.timestamp) : undefined\<close>:
  what is left of the auto-cancel time of a sticky order.
\<close>

definition remainingAutoCancel :: "real \<Rightarrow> Order \<Rightarrow> real option" where
  "remainingAutoCancel now ord =
     (if truthy_num (autoCancel ord)
      then (case autoCancel ord of None \<Rightarrow> None | Some ac \<Rightarrow> Some (ac - (now - timestamp ord)))
      else None)"

text \<open>
  \<open>_updateStickyOrder\<close>. The ticker lookup is outside the \<open>try\<close> block and its error
  propagates; an error of \<open>cancelOrder\<close> or \<open>createOrder\<close> is caught and logged.
\<close>

definition updateStickyOrder :: "real \<Rightarrow> string \<Rightarrow> Order \<Rightarrow> Exchange \<Rightarrow> (Error + unit) \<times> Exchange" where
  "updateStickyOrder now newId ord s =
     (if \<not> truthy_bool (sticky ord) then (Inr (), s)
      else (case getTicker (market ord) s of
              Inl e \<Rightarrow> (Inl e, s)
            | Inr ticker \<Rightarrow>
                (let s1 = snd (syncOrderBook [market ord] s);
                     orderBook = getOrderBook (market ord) s1;
                     newPrice = stickyNewPrice ticker orderBook ord
                 in if price ord = newPrice then (Inr (), s1)
                    else (case cancelOrder now ord s1 of
                            (Inl e, s2) \<Rightarrow> (Inr (), s2)
                          | (Inr u, s2) \<Rightarrow>
                              (let s3 = s2\<lparr>cancelledOrders :=
                                           AList.delete (order_id ord) (cancelledOrders s2)\<rparr>;
                                   newAutoCancel = remainingAutoCancel now ord
                               in if (\<not> truthy_num (autoCancel ord)
                                      \<or> (case newAutoCancel of None \<Rightarrow> False | Some n \<Rightarrow> n > 0))
                                     \<and> remaining ord \<ge> getMinDealAmount (market ord) s3
                                  then (Inr (),
                                        snd (createOrder now newId
                                               (stickyReplacement ord newPrice newAutoCancel) s3))
                                  else (Inr (), s3))))))"

text \<open>
  \<open>purgeOrderList\<close>: the two loops over the keys of the closed and of the cancelled
  record, each deleting the entries whose \<open>timestamp\<close> is older than a week.
\<close>

definition purgeAge :: real where
  "purgeAge = 1000 * 60 * 60 * 24 * 7"

fun purgeClosed ::
  "real \<Rightarrow> string option \<Rightarrow> string list \<Rightarrow> (string \<times> Order) list \<Rightarrow> (string \<times> Order) list" where
  "purgeClosed now m [] closedList = closedList"
| "purgeClosed now m (orderId # ids) closedList =
     (case map_of closedList orderId of
        None \<Rightarrow> purgeClosed now m ids closedList
      | Some ord \<Rightarrow>
          if otherMarket m ord then purgeClosed now m ids closedList
          else if timestamp ord + purgeAge < now
          then purgeClosed now m ids (AList.delete orderId closedList)
          else purgeClosed now m ids closedList)"

fun purgeCancelled ::
  "real \<Rightarrow> string list \<Rightarrow> (string \<times> Order) list \<Rightarrow> (string \<times> Order) list" where
  "purgeCancelled now [] cancelled = cancelled"
| "purgeCancelled now (orderId # ids) cancelled =
     (case map_of cancelled orderId of
        None \<Rightarrow> purgeCancelled now ids cancelled
      | Some ord \<Rightarrow>
          if timestamp ord + purgeAge < now
          then purgeCancelled now ids (AList.delete orderId cancelled)
          else purgeCancelled now ids cancelled)"

definition purgeOrderList :: "real \<Rightarrow> string option \<Rightarrow> Exchange \<Rightarrow> Exchange" where
  "purgeOrderList now m s =
     (let s1 = s\<lparr>closedOrders := purgeClosed now m (map fst (closedOrders s)) (closedOrders s)\<rparr>
      in s1\<lparr>cancelledOrders :=
              purgeCancelled now (map fst (cancelledOrders s1)) (cancelledOrders s1)\<rparr>)"

section \<open>Construction, call sequences and fixtures\<close>

text \<open>The state the constructor builds from an empty data object.\<close>

definition newExchange :: "Remote option \<Rightarrow> Exchange" where
  "newExchange exchange =
     \<lparr> ccxtExchange = exchange, dryRun = False, slippage = fl64 (1 / 100), simulation = True,
       reserves = Map.empty, minDealAmounts = Map.empty, lockdown = False,
       cancelledOrders = [], closedOrders = [], openOrders = [],
       balances = Map.empty, tickers = Map.empty, orderBooks = Map.empty,
       state_fee = fl64 (1 / 10000), forceAutoCancel = False \<rparr>"

text \<open>The sum \<open>free + used\<close> of a currency; a currency without an entry has none of both.\<close>

definition totalOf :: "Exchange \<Rightarrow> string \<Rightarrow> real" where
  "totalOf s c = free (balanceOf s c) + used (balanceOf s c)"

text \<open>
  A sequence of calls of \<open>createOrder\<close> and \<open>cancelOrder\<close>, each with the clock reading
  (and the generated identifier) of the call. A call that throws leaves the state as the
  method left it.
\<close>

datatype Call = CreateOrder real string CreateOrderOptions | CancelOrder real Order

fun isLimitCall :: "Call \<Rightarrow> bool" where
  "isLimitCall (CreateOrder now newId options) = (opt_type options = Limit)"
| "isLimitCall (CancelOrder now ord) = True"

fun runCall :: "Call \<Rightarrow> Exchange \<Rightarrow> Exchange" where
  "runCall (CreateOrder now newId options) s = snd (createOrder now newId options s)"
| "runCall (CancelOrder now ord) s = snd (cancelOrder now ord s)"

definition runCalls :: "Call list \<Rightarrow> Exchange \<Rightarrow> Exchange" where
  "runCalls calls s = fold runCall calls s"

text \<open>
  The bound on the rounding error of one call: half a unit in the last place of each of
  the two balance fields after the call (\<open>2 ^ -53\<close> of the magnitude of a normal number,
  \<open>2 ^ -1075\<close> for a subnormal one); \<open>roundoffs\<close> adds the bounds up over a sequence of
  calls.
\<close>

definition roundoff :: "Exchange \<Rightarrow> string \<Rightarrow> real" where
  "roundoff s c =
     2 powr (- 53) * (\<bar>free (balanceOf s c)\<bar> + \<bar>used (balanceOf s c)\<bar>) + 2 powr (- 1074)"

fun roundoffs :: "Call list \<Rightarrow> Exchange \<Rightarrow> string \<Rightarrow> real" where
  "roundoffs [] s c = 0"
| "roundoffs (call # calls) s c = roundoff (runCall call s) c + roundoffs calls (runCall call s) c"

text \<open>The options of a plain limit order: market, side, amount and price.\<close>

definition limitOrder :: "string \<Rightarrow> OrderSide \<Rightarrow> real \<Rightarrow> real \<Rightarrow> CreateOrderOptions" where
  "limitOrder m sd amt prc =
     \<lparr> opt_market = m, opt_type = Limit, opt_side = sd, opt_amount = amt,
       opt_price = Some prc, opt_autoCancel = None, opt_autoCancelAtFillPercentage = None,
       opt_autoCancelAtPriceLevel = None, opt_sticky = None \<rparr>"

text \<open>A simulated exchange with one ticker and one balance.\<close>

definition simulatedExchange :: "string \<Rightarrow> Ticker \<Rightarrow> string \<Rightarrow> IBalance \<Rightarrow> Exchange" where
  "simulatedExchange m t c b =
     (newExchange None)\<lparr>tickers := [m \<mapsto> t], balances := [c \<mapsto> b]\<rparr>"

definition flatTicker :: "real \<Rightarrow> Ticker" where
  "flatTicker p = \<lparr> ticker_timestamp = 0, ticker_bid = p, ticker_ask = p, ticker_last = p,
                    baseVolume = 0, quoteVolume = 0 \<rparr>"

text \<open>A remote client that rejects every call, to be updated with the answers of a scenario.\<close>

definition rejectingRemote :: Remote where
  "rejectingRemote =
     \<lparr> remote_createOrder = (\<lambda>m typ sd amt prc. None),
       remote_cancelOrder = (\<lambda>ord. False),
       remote_getMinDealAmount = (\<lambda>m. 1),
       remote_retrieveCandles = (\<lambda>m. None),
       remote_fetchTickers = (\<lambda>ms. None),
       remote_fetchOrderBook = (\<lambda>ms. None),
       remote_fetchOpenOrders = (\<lambda>m. None) \<rparr>"

text \<open>An open limit order as \<open>createOrder\<close> stores it, and a candle.\<close>

definition openLimitOrder ::
  "string \<Rightarrow> string \<Rightarrow> OrderSide \<Rightarrow> real \<Rightarrow> real \<Rightarrow> real \<Rightarrow> Order" where
  "openLimitOrder i m sd prc amt ts =
     \<lparr> order_id = i, timestamp = ts, timestampClosed = None, status = ''open'', market = m,
       order_type = Limit, side = sd, price = prc, amount = amt, fee = 0, filled = 0,
       remaining = amt, autoCancel = None, autoCancelAtFillPercentage = Some 1,
       autoCancelAtPriceLevel = Some (if sd = Buy then Infinity else Finite 0),
       sticky = Some False \<rparr>"

definition candle :: "real \<Rightarrow> real \<Rightarrow> real \<Rightarrow> real \<Rightarrow> Candle" where
  "candle ts lo hi vol =
     \<lparr> candle_timestamp = ts, candle_open = lo, candle_high = hi, candle_low = lo,
       candle_close = hi, candle_volume = vol \<rparr>"


text \<open>
  The two answers of the remote exchange the outcome of a cancel-and-replace depends on.
  \<open>cancelAccepted\<close>: \<open>cancelOrder\<close> goes on to release the funds and move the order, which
  it does in simulation and in a dry run, and otherwise when the call of the remote exchange
  succeeds. \<open>placedId\<close>: the identifier under which \<open>createOrder\<close> stores the order, which
  is the generated one unless the order is sent to the remote exchange; then it is the
  identifier the remote exchange returns, if it returns one.
\<close>

definition cancelAccepted :: "Order \<Rightarrow> Exchange \<Rightarrow> bool" where
  "cancelAccepted ord s =
     (simulation s \<or> dryRun s
      \<or> (case ccxtExchange s of None \<Rightarrow> False | Some r \<Rightarrow> remote_cancelOrder r ord))"

definition placedId ::
  "string \<Rightarrow> string \<Rightarrow> OrderType \<Rightarrow> OrderSide \<Rightarrow> real \<Rightarrow> real \<Rightarrow> Exchange \<Rightarrow> string option" where
  "placedId newId mkt typ sd amt prc s =
     (case ccxtExchange s of
        None \<Rightarrow> Some newId
      | Some r \<Rightarrow> if simulation s \<or> dryRun s then Some newId
                  else remote_createOrder r mkt typ sd amt prc)"

text \<open>
  A sticky buy order at 100 with an auto-cancel time of 1000 ms and a price level of its
  own, open on a live exchange whose ticker quotes 110. The remote exchange accepts every
  call, names the orders it creates \<open>r7\<close>, and reports an order book in which the first
  bid is the order itself.
\<close>

definition stickyBuyOrder :: Order where
  "stickyBuyOrder =
     (openLimitOrder ''a1'' ''BTC/USDT'' Buy 100 1 0)
       \<lparr>autoCancel := Some 1000, autoCancelAtPriceLevel := Some (Finite 120),
        sticky := Some True\<rparr>"

definition acceptingRemote :: Remote where
  "acceptingRemote =
     rejectingRemote
       \<lparr>remote_createOrder := (\<lambda>m typ sd amt prc. Some ''r7''),
        remote_cancelOrder := (\<lambda>ord. True),
        remote_fetchOrderBook :=
          (\<lambda>ms. Some [''BTC/USDT'' \<mapsto>
                        \<lparr> bids = [(100, 1), (99, 5)], asks = [(111, 2), (112, 3)] \<rparr>])\<rparr>"

definition stickyExchange :: Exchange where
  "stickyExchange =
     (newExchange (Some acceptingRemote))
       \<lparr>simulation := False,
        openOrders := [(''a1'', stickyBuyOrder)],
        balances := [''USDT'' \<mapsto> \<lparr> free = 0, used = 100 \<rparr>],
        tickers := [''BTC/USDT'' \<mapsto> flatTicker 110]\<rparr>"
section \<open>Exchange state mirror: the reconciliation cycle\<close>

text \<open>
  \<open>Promise.all(orders.map(f))\<close>: every call runs, in the order of the list, and the
  result is the first error, if there is one.
\<close>

fun promiseAll ::
  "('a \<Rightarrow> Exchange \<Rightarrow> (Error + unit) \<times> Exchange) \<Rightarrow> 'a list \<Rightarrow> Exchange
     \<Rightarrow> (Error + unit) \<times> Exchange" where
  "promiseAll f [] s = (Inr (), s)"
| "promiseAll f (x # xs) s =
     (case f x s of
        (Inl e, s1) \<Rightarrow> (Inl e, snd (promiseAll f xs s1))
      | (Inr u, s1) \<Rightarrow> promiseAll f xs s1)"

text \<open>The property key of an optional market: \<open>tickers[undefined]\<close> reads the key \<open>"undefined"\<close>.\<close>

definition tickerKey :: "string option \<Rightarrow> string" where
  "tickerKey m = (case m of None \<Rightarrow> ''undefined'' | Some v \<Rightarrow> v)"

text \<open>
  \<open>x > level\<close> and \<open>x < level\<close> for an optional price level: a comparison with \<open>undefined\<close>
  is false.
\<close>

definition aboveLevel :: "real \<Rightarrow> PriceLevel option \<Rightarrow> bool" where
  "aboveLevel x l = (case l of None \<Rightarrow> False | Some Infinity \<Rightarrow> False | Some (Finite v) \<Rightarrow> x > v)"

definition belowLevel :: "real \<Rightarrow> PriceLevel option \<Rightarrow> bool" where
  "belowLevel x l = (case l of None \<Rightarrow> False | Some Infinity \<Rightarrow> True | Some (Finite v) \<Rightarrow> x < v)"

text \<open>
  \<open>syncOrders\<close>, first loop: an open order of the market that the remote exchange no
  longer lists and that was not cancelled locally is closed as fulfilled; one that is
  listed takes the remote status, filled, remaining and fee. The balance lookups of the
  posted event create missing balances, and raise for a market name without a slash.
\<close>

fun syncLocalOrders ::
  "real \<Rightarrow> string option \<Rightarrow> (string \<rightharpoonup> Order) \<Rightarrow> string list \<Rightarrow> Exchange
     \<Rightarrow> (Error + unit) \<times> Exchange" where
  "syncLocalOrders now m ccxtOrderIdMap [] s = (Inr (), s)"
| "syncLocalOrders now m ccxtOrderIdMap (orderId # ids) s =
     (case map_of (openOrders s) orderId of
        None \<Rightarrow> syncLocalOrders now m ccxtOrderIdMap ids s
      | Some ord \<Rightarrow>
          if otherMarket m ord then syncLocalOrders now m ccxtOrderIdMap ids s
          else (case ccxtOrderIdMap orderId of
                  None \<Rightarrow>
                    (case map_of (cancelledOrders s) orderId of
                       Some c \<Rightarrow> syncLocalOrders now m ccxtOrderIdMap ids s
                     | None \<Rightarrow>
                         (let ord1 = ord\<lparr>timestampClosed := Some now, status := ''closed'',
                                         filled := amount ord, remaining := 0\<rparr>;
                              s1 = s\<lparr>closedOrders := AList.update orderId ord1 (closedOrders s),
                                     openOrders := AList.delete orderId (openOrders s)\<rparr>
                          in case getBalance (quoteCurrencyOf (market ord1)) s1 of
                               (Inl e, s2) \<Rightarrow> (Inl e, s2)
                             | (Inr quoteBalance, s2) \<Rightarrow>
                            (case getBalance (baseCurrencyOf (market ord1)) s2 of
                               (Inl e, s3) \<Rightarrow> (Inl e, s3)
                             | (Inr baseBalance, s3) \<Rightarrow>
                                 syncLocalOrders now m ccxtOrderIdMap ids s3)))
                | Some ccxtOrder \<Rightarrow>
                    syncLocalOrders now m ccxtOrderIdMap ids
                      (s\<lparr>openOrders := AList.update orderId
                           (ord\<lparr>status := status ccxtOrder, filled := filled ccxtOrder,
                                remaining := remaining ccxtOrder, fee := fee ccxtOrder\<rparr>)
                           (openOrders s)\<rparr>)))"

text \<open>
  \<open>syncOrders\<close>, second loop: a remote order unknown to the open record is restored from
  the closed record, cancelled (under \<open>forceAutoCancel\<close>, unless this is a dry run), or
  taken over as it is.
\<close>

fun syncRemoteOrders :: "real \<Rightarrow> Order list \<Rightarrow> Exchange \<Rightarrow> (Error + unit) \<times> Exchange" where
  "syncRemoteOrders now [] s = (Inr (), s)"
| "syncRemoteOrders now (ccxtOrder # rest) s =
     (case map_of (openOrders s) (order_id ccxtOrder) of
        Some ord \<Rightarrow> syncRemoteOrders now rest s
      | None \<Rightarrow>
          (case map_of (closedOrders s) (order_id ccxtOrder) of
             Some c \<Rightarrow>
               syncRemoteOrders now rest
                 (s\<lparr>openOrders := AList.update (order_id ccxtOrder)
                        (c\<lparr>status := status ccxtOrder, filled := filled ccxtOrder,
                           remaining := remaining ccxtOrder, fee := fee ccxtOrder\<rparr>)
                        (openOrders s),
                    closedOrders := AList.delete (order_id ccxtOrder) (closedOrders s)\<rparr>)
           | None \<Rightarrow>
               if forceAutoCancel s
               then (if \<not> dryRun s
                     then (case cancelOrder now ccxtOrder s of
                             (Inl e, s1) \<Rightarrow> (Inl e, s1)
                           | (Inr u, s1) \<Rightarrow> syncRemoteOrders now rest s1)
                     else syncRemoteOrders now rest s)
               else syncRemoteOrders now rest
                      (s\<lparr>openOrders :=
                           AList.update (order_id ccxtOrder) ccxtOrder (openOrders s)\<rparr>)))"

text \<open>
  \<open>syncOrders\<close>, third loop: an open order of the market without a \<open>sticky\<close> setting is
  cancelled on the remote exchange and dropped; the others are counted.
\<close>

fun dropZombieOrders ::
  "Remote \<Rightarrow> string option \<Rightarrow> string list \<Rightarrow> nat \<Rightarrow> Exchange \<Rightarrow> (Error + nat) \<times> Exchange" where
  "dropZombieOrders r m [] countOpenOrders s = (Inr countOpenOrders, s)"
| "dropZombieOrders r m (orderId # ids) countOpenOrders s =
     (case map_of (openOrders s) orderId of
        None \<Rightarrow> dropZombieOrders r m ids countOpenOrders s
      | Some ord \<Rightarrow>
          if otherMarket m ord then dropZombieOrders r m ids countOpenOrders s
          else if sticky ord = None
          then (if \<not> dryRun s \<and> \<not> remote_cancelOrder r ord then (Inl RemoteRejected, s)
                else dropZombieOrders r m ids countOpenOrders
                       (s\<lparr>openOrders := AList.delete orderId (openOrders s)\<rparr>))
          else dropZombieOrders r m ids (countOpenOrders + 1) s)"

text \<open>
  \<open>syncOrders\<close>: nothing to do without a remote exchange or in simulation; every
  exception is caught and gives \<open>false\<close>. \<open>mapFromArray\<close> keeps the last order of an
  identifier.
\<close>

definition syncOrders :: "real \<Rightarrow> string option \<Rightarrow> Exchange \<Rightarrow> bool \<times> Exchange" where
  "syncOrders now m s =
     (case ccxtExchange s of
        None \<Rightarrow> (True, s)
      | Some r \<Rightarrow>
          if simulation s then (True, s)
          else (case remote_fetchOpenOrders r m of
                  None \<Rightarrow> (False, s)
                | Some ccxtOrders \<Rightarrow>
                    (let ccxtOrderIdMap = map_of (rev (map (\<lambda>ord. (order_id ord, ord)) ccxtOrders))
                     in case syncLocalOrders now m ccxtOrderIdMap (map fst (openOrders s)) s of
                          (Inl e, s1) \<Rightarrow> (False, s1)
                        | (Inr u, s1) \<Rightarrow>
                       (case syncRemoteOrders now ccxtOrders s1 of
                          (Inl e, s2) \<Rightarrow> (False, s2)
                        | (Inr u, s2) \<Rightarrow>
                       (case dropZombieOrders r m (map fst (openOrders s2)) 0 s2 of
                          (Inl e, s3) \<Rightarrow> (False, s3)
                        | (Inr countOpenOrders, s3) \<Rightarrow>
                            if length ccxtOrders \<noteq> countOpenOrders then (False, s3)
                            else (True, s3))))))"

text \<open>\<open>fulfillLimitOrders\<close>: every open limit order of the market is checked.\<close>

definition fulfillLimitOrders :: "real \<Rightarrow> string option \<Rightarrow> Exchange \<Rightarrow> (Error + unit) \<times> Exchange" where
  "fulfillLimitOrders now m s =
     promiseAll (checkFullfillOrder now)
       (getOpenOrders m (\<lambda>ord. order_type ord = Limit) s) s"

text \<open>The filter of \<open>autoCancelOrders\<close>: age, fill percentage, price level.\<close>

definition autoCancelDue :: "real \<Rightarrow> Ticker \<Rightarrow> Order \<Rightarrow> bool" where
  "autoCancelDue now ticker ord =
     (if truthy_num (autoCancel ord)
         \<and> (case autoCancel ord of None \<Rightarrow> False | Some ac \<Rightarrow> timestamp ord + ac < now)
      then True
      else if (case autoCancelAtFillPercentage ord of
                 None \<Rightarrow> False | Some f \<Rightarrow> filled ord \<ge> dmul f (amount ord))
      then True
      else if side ord = Buy \<and> aboveLevel (ticker_ask ticker) (autoCancelAtPriceLevel ord)
      then True
      else if side ord = Sell \<and> belowLevel (ticker_bid ticker) (autoCancelAtPriceLevel ord)
      then True
      else False)"

text \<open>
  \<open>autoCancelOrders\<close>: the ticker of the market is looked up first, whatever the open
  orders are.
\<close>

definition autoCancelOrders :: "real \<Rightarrow> string option \<Rightarrow> Exchange \<Rightarrow> (Error + unit) \<times> Exchange" where
  "autoCancelOrders now m s =
     (case getTicker (tickerKey m) s of
        Inl e \<Rightarrow> (Inl e, s)
      | Inr ticker \<Rightarrow>
          promiseAll (cancelOrder now) (getOpenOrders m (autoCancelDue now ticker) s) s)"

text \<open>
  \<open>updateStickyOrders\<close>: \<open>genId ord\<close> is the identifier generated while the sticky order
  \<open>ord\<close> is replaced.
\<close>

definition updateStickyOrders ::
  "real \<Rightarrow> (Order \<Rightarrow> string) \<Rightarrow> string option \<Rightarrow> Exchange \<Rightarrow> (Error + unit) \<times> Exchange" where
  "updateStickyOrders now genId m s =
     promiseAll (\<lambda>ord. updateStickyOrder now (genId ord) ord)
       (getOpenOrders m (\<lambda>ord. truthy_bool (sticky ord)) s) s"

text \<open>
  \<open>update\<close>: the result is the thrown error or the returned value, \<open>None\<close> for the
  \<open>return\<close> without a value in lockdown.
\<close>

definition update ::
  "real \<Rightarrow> (Order \<Rightarrow> string) \<Rightarrow> string option \<Rightarrow> Exchange \<Rightarrow> (Error + bool option) \<times> Exchange" where
  "update now genId m s =
     (if lockdown s then (Inr None, s)
      else (case syncOrders now m s of
              (False, s1) \<Rightarrow> (Inr (Some False), s1)
            | (True, s1) \<Rightarrow>
           (case (if simulation s1 then fulfillLimitOrders now m s1 else (Inr (), s1)) of
              (Inl e, s2) \<Rightarrow> (Inl e, s2)
            | (Inr u, s2) \<Rightarrow>
           (case autoCancelOrders now m s2 of
              (Inl e, s3) \<Rightarrow> (Inl e, s3)
            | (Inr u, s3) \<Rightarrow>
           (case updateStickyOrders now genId m s3 of
              (Inl e, s4) \<Rightarrow> (Inl e, s4)
            | (Inr u, s4) \<Rightarrow> (Inr (Some True), purgeOrderList now m s4))))))"

section \<open>Lemmas on rounding\<close>

lemma round_even_err: "\<bar>y - of_int (round_even y)\<bar> \<le> 1 / 2"
  unfolding round_even_def Let_def by (auto simp: abs_le_iff)

lemma round_even_of_int [simp]: "round_even (of_int n) = n"
  by (simp add: round_even_def)

lemma round_even_ge:
  assumes "of_int n \<le> y"
  shows "n \<le> round_even y"
proof -
  have "n \<le> \<lfloor>y\<rfloor>" using assms by (simp add: le_floor_iff)
  moreover have "\<lfloor>y\<rfloor> \<le> round_even y"
    unfolding round_even_def Let_def by auto
  ultimately show ?thesis by simp
qed

lemma quantum_pos: "0 < quantum x"
  by (simp add: quantum_def)

lemma quantum_eval:
  assumes "2 powr of_int e \<le> \<bar>x\<bar>" and "\<bar>x\<bar> < 2 powr of_int (e + 1)" and "- 1022 \<le> e"
  shows "quantum x = 2 powr of_int (e - 52)"
proof -
  have "0 < \<bar>x\<bar>" using assms(1) by (smt (verit) powr_gt_zero)
  then have "\<lfloor>log 2 \<bar>x\<bar>\<rfloor> = e"
    using assms(1,2) by (simp add: floor_log_eq_powr_iff)
  with assms(3) show ?thesis by (simp add: quantum_def max_def)
qed

lemma fl64_eval:
  assumes "2 powr of_int e \<le> \<bar>x\<bar>" and "\<bar>x\<bar> < 2 powr of_int (e + 1)" and "- 1022 \<le> e"
  shows "fl64 x = sgn x * of_int (round_even (\<bar>x\<bar> / 2 powr of_int (e - 52))) * 2 powr of_int (e - 52)"
proof -
  have "x \<noteq> 0" using assms(1) by (smt (verit) powr_gt_zero)
  then show ?thesis by (simp add: fl64_def quantum_eval [OF assms])
qed

lemma powr_neg_nat: "(2::real) powr of_int (- int n) = 1 / 2 ^ n"
proof -
  have "(2::real) powr of_int (- int n) = 2 powr (- real n)" by simp
  also have "\<dots> = 1 / 2 ^ n" by (simp add: powr_minus powr_realpow inverse_eq_divide)
  finally show ?thesis .
qed

lemma powr_pos_nat: "(2::real) powr of_int (int n) = 2 ^ n"
  by (simp add: powr_realpow)

lemma fl64_eval_neg:
  assumes "1 \<le> \<bar>x\<bar> * 2 ^ n" and "\<bar>x\<bar> * 2 ^ n < 2" and "n \<le> 1022"
  shows "fl64 x = sgn x * of_int (round_even (\<bar>x\<bar> * 2 ^ (n + 52))) / 2 ^ (n + 52)"
proof -
  have q: "(2::real) powr of_int (- int n - 52) = 1 / 2 ^ (n + 52)"
    using powr_neg_nat [of "n + 52"] by (simp add: algebra_simps)
  have a: "2 powr of_int (- int n) \<le> \<bar>x\<bar>"
  proof -
    have "1 / 2 ^ n \<le> \<bar>x\<bar>" using assms(1) by (simp add: divide_simps)
    then show ?thesis unfolding powr_neg_nat .
  qed
  have b: "\<bar>x\<bar> < 2 powr of_int (- int n + 1)"
  proof (cases n)
    case 0
    with assms(2) show ?thesis by simp
  next
    case (Suc m)
    have "- int n + 1 = - int m" using Suc by simp
    moreover have "\<bar>x\<bar> < 1 / 2 ^ m" using assms(2) Suc by (simp add: divide_simps)
    ultimately show ?thesis by (simp only: powr_neg_nat)
  qed
  have c: "- 1022 \<le> - int n" using assms(3) by simp
  have "fl64 x = sgn x * of_int (round_even (\<bar>x\<bar> / (1 / 2 ^ (n + 52)))) * (1 / 2 ^ (n + 52))"
    using fl64_eval [OF a b c] unfolding q .
  then show ?thesis by simp
qed

lemma fl64_0 [simp]: "fl64 0 = 0"
  by (simp add: fl64_def)

text \<open>The rounding error is at most half a quantum, relative to the result.\<close>

lemma fl64_error: "\<bar>fl64 x - x\<bar> \<le> 2 powr (- 53) * \<bar>fl64 x\<bar> + 2 powr (- 1075)"
proof (cases "x = 0")
  case True
  then show ?thesis by simp
next
  case False
  define q where "q = quantum x"
  define m where "m = round_even (\<bar>x\<bar> / q)"
  have q0: "0 < q" by (simp add: q_def quantum_pos)
  have fx: "fl64 x = sgn x * of_int m * q"
    using False by (simp add: fl64_def q_def m_def)
  have "\<bar>\<bar>x\<bar> / q - of_int m\<bar> \<le> 1 / 2"
    unfolding m_def by (rule round_even_err)
  then have "\<bar>\<bar>x\<bar> / q - of_int m\<bar> * q \<le> 1 / 2 * q"
    using q0 by (simp only: mult_right_mono less_imp_le)
  moreover have "\<bar>\<bar>x\<bar> / q - of_int m\<bar> * q = \<bar>\<bar>x\<bar> - of_int m * q\<bar>"
  proof -
    have "\<bar>\<bar>x\<bar> / q - of_int m\<bar> * q = \<bar>(\<bar>x\<bar> / q - of_int m) * q\<bar>"
      using q0 by (simp add: abs_mult)
    also have "(\<bar>x\<bar> / q - of_int m) * q = \<bar>x\<bar> - of_int m * q"
      using q0 by (simp add: algebra_simps)
    finally show ?thesis .
  qed
  ultimately have e1: "\<bar>\<bar>x\<bar> - of_int m * q\<bar> \<le> q / 2" by simp
  have "fl64 x - x = sgn x * (of_int m * q - \<bar>x\<bar>)"
    unfolding fx using False by (simp add: algebra_simps sgn_real_def)
  then have "\<bar>fl64 x - x\<bar> = \<bar>of_int m * q - \<bar>x\<bar>\<bar>"
    using False by (simp add: abs_mult sgn_real_def)
  with e1 have err: "\<bar>fl64 x - x\<bar> \<le> q / 2" by (simp add: abs_minus_commute)
  show ?thesis
  proof (cases "- 1022 \<le> \<lfloor>log 2 \<bar>x\<bar>\<rfloor>")
    case True
    define l where "l = \<lfloor>log 2 \<bar>x\<bar>\<rfloor>"
    have "max \<lfloor>log 2 \<bar>x\<bar>\<rfloor> (- 1022) = l"
      using True by (simp only: l_def max_absorb1)
    then have ql: "q = 2 powr (of_int l - 52)"
      by (simp only: q_def quantum_def of_int_diff of_int_numeral)
    have lx: "2 powr of_int l \<le> \<bar>x\<bar>"
      using False floor_log_eq_powr_iff [of "\<bar>x\<bar>" 2 l] by (simp add: l_def)
    have "2 powr of_int l / q = 2 powr 52"
      unfolding ql by (simp add: powr_diff)
    also have "\<dots> = of_int (2 ^ 52)" by (simp add: powr_numeral del: of_int_power)
    finally have "of_int (2 ^ 52) \<le> \<bar>x\<bar> / q"
      using lx q0 by (simp add: divide_simps del: of_int_power)
    then have "2 ^ 52 \<le> m" unfolding m_def by (rule round_even_ge)
    then have m52: "(2::real) ^ 52 \<le> of_int m"
      by (metis of_int_le_iff of_int_numeral of_int_power)
    then have mpos: "0 \<le> (of_int m :: real)" by (smt (verit) zero_le_power)
    from m52 have mq: "2 ^ 52 * q \<le> of_int m * q"
      using q0 by (simp only: mult_right_mono less_imp_le)
    have "\<bar>fl64 x\<bar> = of_int m * q"
      unfolding fx using False mpos q0 by (simp add: abs_mult sgn_real_def)
    moreover have "q / 2 = 2 powr (- 53) * (2 ^ 52 * q)"
    proof -
      have "(2::real) powr (- 53) = 1 / 2 ^ 53" by (simp add: powr_neg_numeral)
      then show ?thesis by simp
    qed
    ultimately have "q / 2 \<le> 2 powr (- 53) * \<bar>fl64 x\<bar>"
      using mq by (simp only: mult_left_mono powr_ge_zero)
    with err show ?thesis by (smt (verit) powr_ge_zero)
  next
    case False
    then have "\<lfloor>log 2 \<bar>x\<bar>\<rfloor> \<le> - 1022" by linarith
    then have "max \<lfloor>log 2 \<bar>x\<bar>\<rfloor> (- 1022) = - 1022"
      by (simp only: max_absorb2)
    then have "q = 2 powr of_int (- 1022 - 52)"
      by (simp only: q_def quantum_def)
    then have "q = 2 powr (- 1074)" by simp
    then have "q / 2 = 2 powr (- 1075)"
      by (simp add: powr_neg_numeral)
    with err show ?thesis by (smt (verit) powr_ge_zero mult_nonneg_nonneg abs_ge_zero)
  qed
qed

lemma fl64_of_int:
  assumes "\<bar>n\<bar> < 2 ^ 53"
  shows "fl64 (of_int n) = of_int n"
proof (cases "n = 0")
  case True
  then show ?thesis by simp
next
  case False
  define x :: real where "x = of_int n"
  define l where "l = \<lfloor>log 2 \<bar>x\<bar>\<rfloor>"
  have x0: "x \<noteq> 0" using False by (simp add: x_def)
  have x1: "1 \<le> \<bar>x\<bar>" using False by (simp add: x_def)
  have lx: "2 powr of_int l \<le> \<bar>x\<bar>" "\<bar>x\<bar> < 2 powr (of_int l + 1)"
    using x0 floor_log_eq_powr_iff [of "\<bar>x\<bar>" 2 l] by (simp_all add: l_def)
  have l0: "0 \<le> l"
    unfolding l_def using x1 by (simp add: zero_le_log_cancel_iff)
  have "\<bar>x\<bar> < 2 ^ 53"
    using assms unfolding x_def
    by (metis of_int_abs of_int_less_iff of_int_numeral of_int_power)
  then have "(2::real) powr of_int l < 2 powr 53"
    using lx(1) by (simp add: powr_numeral)
  then have "real_of_int l < 53" by (rule powr_less_cancel) simp
  then have l52: "l \<le> 52" by linarith
  define j where "j = nat (52 - l)"
  have jl: "of_int l - 52 = - real j"
    using l52 by (simp add: j_def)
  have q: "quantum x = 1 / 2 ^ j"
    using l0 by (simp add: quantum_def l_def [symmetric] max_def jl powr_minus powr_realpow
        inverse_eq_divide)
  have "\<bar>x\<bar> / quantum x = \<bar>x\<bar> * 2 ^ j"
    by (simp add: q)
  also have "\<dots> = of_int (\<bar>n\<bar> * 2 ^ j)"
    by (simp add: x_def)
  finally have "round_even (\<bar>x\<bar> / quantum x) = \<bar>n\<bar> * 2 ^ j"
    by (simp only: round_even_of_int)
  then have "fl64 x = sgn x * of_int (\<bar>n\<bar> * 2 ^ j) * (1 / 2 ^ j)"
    using x0 by (simp add: fl64_def q)
  also have "\<dots> = sgn x * \<bar>x\<bar>" by (simp add: x_def)
  also have "\<dots> = x" by (simp add: sgn_real_def)
  finally show ?thesis by (simp add: x_def)
qed

lemma fl64_numeral: "numeral w < (2::int) ^ 53 \<Longrightarrow> fl64 (numeral w) = numeral w"
  using fl64_of_int [of "numeral w"] by simp

lemma fl64_neg_numeral: "numeral w < (2::int) ^ 53 \<Longrightarrow> fl64 (- numeral w) = - numeral w"
  using fl64_of_int [of "- numeral w"] by simp

lemma fl64_1 [simp]: "fl64 1 = 1"
  using fl64_of_int [of 1] by simp

lemma fl64_neg_1 [simp]: "fl64 (- 1) = - 1"
  using fl64_of_int [of "- 1"] by simp

section \<open>The market model and the drawdown guard\<close>

subsection \<open>The numbers of the market model\<close>

lemma fl_not_NaN [simp]: "fl x \<noteq> NaN"
  by (simp add: fl_def)

lemma fl_of_int: "\<bar>n\<bar> < 2 ^ 53 \<Longrightarrow> fl (of_int n) = Fin (of_int n)"
proof -
  assume a: "\<bar>n\<bar> < 2 ^ 53"
  then have "\<bar>real_of_int n\<bar> < 2 ^ 53"
    by (metis of_int_abs of_int_less_iff of_int_numeral of_int_power)
  then have "\<bar>real_of_int n\<bar> < 2 ^ 1024"
    by (rule less_trans) simp
  then show ?thesis by (simp add: fl_def fl64_of_int [OF a])
qed

lemma fl_numeral: "numeral w < (2::int) ^ 53 \<Longrightarrow> fl (numeral w) = Fin (numeral w)"
  using fl_of_int [of "numeral w"] by simp

lemma fl_neg_numeral: "numeral w < (2::int) ^ 53 \<Longrightarrow> fl (- numeral w) = Fin (- numeral w)"
  using fl_of_int [of "- numeral w"] by simp

lemma fl_neg_1: "fl (- 1) = Fin (- 1)"
  using fl_of_int [of "- 1"] by simp

lemma nadd_NaN [simp]: "nadd NaN b = NaN" "nadd a NaN = NaN"
  by (cases b; simp) (cases a; simp)

lemma nmul_NaN [simp]: "nmul NaN b = NaN" "nmul a NaN = NaN"
  by (cases b; simp) (cases a; simp)

lemma nsub_NaN [simp]: "nsub NaN b = NaN" "nsub a NaN = NaN"
  by (simp_all add: nsub_def)

lemma nle_NaN [simp]: "\<not> nle NaN b" "\<not> nle a NaN"
  by (cases b; simp) (cases a; simp)

lemma nle_refl: "a \<noteq> NaN \<Longrightarrow> nle a a"
  by (cases a) simp_all

lemma nle_total: "a \<noteq> NaN \<Longrightarrow> b \<noteq> NaN \<Longrightarrow> nle a b \<or> nle b a"
  by (cases a; cases b) auto

lemma nmin_NaN_iff: "nmin a b = NaN \<longleftrightarrow> a = NaN \<or> b = NaN"
  by (simp add: nmin_def)

lemma nmax_NaN_iff: "nmax a b = NaN \<longleftrightarrow> a = NaN \<or> b = NaN"
  by (simp add: nmax_def)

lemma nmin_le: "nmin a b \<noteq> NaN \<Longrightarrow> nle (nmin a b) a"
  using nle_refl [of a] nle_total [of a b] by (auto simp: nmin_def)

lemma nmax_ge: "nmax a b \<noteq> NaN \<Longrightarrow> nle a (nmax a b)"
  using nle_refl [of a] nle_total [of a b] by (auto simp: nmax_def)

lemma fl_finite:
  assumes "\<bar>x\<bar> \<le> 2 ^ 1000"
  shows "\<exists>y. fl x = Fin y \<and> \<bar>y\<bar> \<le> 2 * \<bar>x\<bar> + 1"
proof -
  have e: "\<bar>fl64 x - x\<bar> \<le> 2 powr (- 53) * \<bar>fl64 x\<bar> + 2 powr (- 1075)"
    by (rule fl64_error)
  have "(2::real) powr (- 53) = 1 / 2 ^ 53" by (simp add: powr_neg_numeral)
  then have a: "(2::real) powr (- 53) \<le> 1 / 2" by simp
  have "(2::real) powr (- 1075) = 1 / 2 ^ 1075" by (simp add: powr_neg_numeral)
  then have b: "(2::real) powr (- 1075) \<le> 1 / 2" by simp
  have "2 powr (- 53) * \<bar>fl64 x\<bar> \<le> 1 / 2 * \<bar>fl64 x\<bar>"
    using a by (rule mult_right_mono) simp
  with e b have y: "\<bar>fl64 x\<bar> \<le> 2 * \<bar>x\<bar> + 1" by linarith
  also have "\<dots> \<le> 2 * 2 ^ 1000 + 1" using assms by simp
  also have "\<dots> < (2::real) ^ 1024" by simp
  finally have "fl x = Fin (fl64 x)" by (simp add: fl_def)
  with y show ?thesis by blast
qed

lemma fl_bounded:
  assumes "\<bar>x\<bar> \<le> B" and "B \<le> 2 ^ 1000"
  shows "\<exists>y. fl x = Fin y \<and> \<bar>y\<bar> \<le> 2 * B + 1"
proof -
  from assms have "\<bar>x\<bar> \<le> 2 ^ 1000" by (rule order_trans)
  from fl_finite [OF this] obtain y where "fl x = Fin y" "\<bar>y\<bar> \<le> 2 * \<bar>x\<bar> + 1"
    by blast
  with assms(1) show ?thesis by (intro exI [of _ y]) simp
qed

lemma fl_half: "fl (1 / 2) = Fin (1 / 2)"
proof -
  have "fl64 (1 / 2) = 1 / 2"
    by (subst fl64_eval_neg [where n = 1]) (simp_all add: round_even_def)
  then show ?thesis by (simp add: fl_def)
qed

lemma fl_0: "fl 0 = Fin 0"
  by (simp add: fl_def)

lemma fl_1: "fl 1 = Fin 1"
  by (simp add: fl_def)

text \<open>
  The parameters \<open>sigma = gamma = A = k = 1\<close> at a mid price of 100 and no inventory: the
  two price distances are finite numbers.
\<close>

lemma unit_distance:
  "\<exists>d. nadd (nmul (Fin 1) (fl (ln 2))) (nmul (Fin (1 / 2)) (fl (sqrt 2))) = Fin d
       \<and> \<bar>d\<bar> \<le> 64"
proof -
  have "0 \<le> ln (2::real)" "ln (2::real) \<le> 1"
    using ln_2_less_1 by simp_all
  then have "\<bar>ln (2::real)\<bar> \<le> 1" by simp
  from fl_bounded [OF this] obtain l where l: "fl (ln 2) = Fin l" "\<bar>l\<bar> \<le> 3"
    by auto
  from fl_bounded [OF l(2)] obtain l' where l': "fl l = Fin l'" "\<bar>l'\<bar> \<le> 7"
    by auto
  have "sqrt 2 \<le> sqrt (4::real)" by (simp only: real_sqrt_le_iff)
  then have "\<bar>sqrt 2\<bar> \<le> 2" by simp
  from fl_bounded [OF this] obtain r where r: "fl (sqrt 2) = Fin r" "\<bar>r\<bar> \<le> 5"
    by auto
  from r(2) have "\<bar>r / 2\<bar> \<le> 5" by simp
  from fl_bounded [OF this] obtain r' where r': "fl (r / 2) = Fin r'" "\<bar>r'\<bar> \<le> 11"
    by auto
  from l'(2) r'(2) have "\<bar>l' + r'\<bar> \<le> 18" by linarith
  from fl_bounded [OF this] obtain d where d: "fl (l' + r') = Fin d" "\<bar>d\<bar> \<le> 37"
    by auto
  have "nadd (nmul (Fin 1) (fl (ln 2))) (nmul (Fin (1 / 2)) (fl (sqrt 2))) = Fin d"
    by (simp add: l(1) l'(1) r(1) r'(1) d(1))
  with d(2) show ?thesis by (intro exI [of _ d]) simp
qed

subsection \<open>computeQuote\<close>

text \<open>
  C7, as stated: for every input, \<open>computeQuote\<close> returns a bid that is at most the mid
  price and an ask that is at least the mid price. This fails in two ways. When the
  sanity check rejects the parameters the function returns the quote \<open>{bid: 0, ask: 0}\<close>
  whatever the mid price is: with \<open>sigma = 0\<close> and a mid price of 100 the returned ask,
  0, is below the mid price. And when a price distance is \<open>NaN\<close>, so is the quote: with
  \<open>gamma = -2\<close> and \<open>buy.k = 1\<close> the logarithm of \<open>1 + gamma / k = -1\<close> is \<open>NaN\<close>, the bid is
  \<open>NaN\<close>, and \<open>bid <= midPrice\<close> is false.
\<close>

theorem computeQuote_zero_quote_below_mid:
  "\<not> nle (Fin 100)
       (ask (computeQuote \<lparr> sigma = Fin 0, mu = Fin 0, gamma = Fin 1,
                            buy = \<lparr> A = Fin 1, k = Fin 1 \<rparr>, sell = \<lparr> A = Fin 1, k = Fin 1 \<rparr>,
                            midPrice = Fin 100, inventory = Fin 0, includeDrift = False \<rparr>))
   \<and> \<not> nle (bid (computeQuote \<lparr> sigma = Fin 1, mu = Fin 0, gamma = Fin (- 2),
                                 buy = \<lparr> A = Fin 1, k = Fin 1 \<rparr>,
                                 sell = \<lparr> A = Fin 1, k = Fin 1 \<rparr>,
                                 midPrice = Fin 100, inventory = Fin 0, includeDrift = False \<rparr>))
            (Fin 100)"
  by (simp add: computeQuote_def sanity_def ntruthy_def bidPriceDistance_def computeTerms_def
      fl_neg_numeral fl_neg_1 nmin_def)

text \<open>
  C7, amended: when the sanity check fails (one of \<open>sigma\<close>, \<open>gamma\<close>, \<open>buy.A\<close>, \<open>buy.k\<close>,
  \<open>sell.A\<close>, \<open>sell.k\<close> is zero or \<open>NaN\<close>) the result is \<open>{bid: 0, ask: 0}\<close>. When it passes,
  the bid is \<open>NaN\<close> exactly when \<open>midPrice - bidPriceDistance\<close> is, and is at most the mid
  price otherwise; the ask is \<open>NaN\<close> exactly when \<open>midPrice + askPriceDistance\<close> is, and is
  at least the mid price otherwise. The bid is \<open>NaN\<close> in particular when \<open>1 + gamma / buy.k\<close>
  is negative, and the ask when \<open>1 + gamma / sell.k\<close> is.
\<close>

theorem computeQuote_never_crosses_mid:
  "(\<not> sanity p \<longrightarrow> computeQuote p = \<lparr> bid = Fin 0, ask = Fin 0 \<rparr>)
   \<and> (sanity p \<longrightarrow>
         (bid (computeQuote p) = NaN \<longleftrightarrow> nsub (midPrice p) (bidPriceDistance p) = NaN)
       \<and> (ask (computeQuote p) = NaN \<longleftrightarrow> nadd (midPrice p) (askPriceDistance p) = NaN)
       \<and> (bid (computeQuote p) \<noteq> NaN \<longrightarrow> nle (bid (computeQuote p)) (midPrice p))
       \<and> (ask (computeQuote p) \<noteq> NaN \<longrightarrow> nle (midPrice p) (ask (computeQuote p)))
       \<and> (\<forall>x. nadd (Fin 1) (ndiv (gamma p) (k (buy p))) = Fin x \<and> x < 0
              \<longrightarrow> bid (computeQuote p) = NaN)
       \<and> (\<forall>x. nadd (Fin 1) (ndiv (gamma p) (k (sell p))) = Fin x \<and> x < 0
              \<longrightarrow> ask (computeQuote p) = NaN))"
proof (intro conjI impI allI)
  assume "\<not> sanity p"
  then show "computeQuote p = \<lparr> bid = Fin 0, ask = Fin 0 \<rparr>"
    by (simp add: computeQuote_def)
next
  assume s: "sanity p"
  show "bid (computeQuote p) = NaN \<longleftrightarrow> nsub (midPrice p) (bidPriceDistance p) = NaN"
    using s by (cases "midPrice p = NaN") (simp_all add: computeQuote_def nmin_NaN_iff)
  show "ask (computeQuote p) = NaN \<longleftrightarrow> nadd (midPrice p) (askPriceDistance p) = NaN"
    using s by (cases "midPrice p = NaN") (simp_all add: computeQuote_def nmax_NaN_iff)
  show "nle (bid (computeQuote p)) (midPrice p)" if "bid (computeQuote p) \<noteq> NaN"
    using s that by (simp add: computeQuote_def nmin_le)
  show "nle (midPrice p) (ask (computeQuote p))" if "ask (computeQuote p) \<noteq> NaN"
    using s that by (simp add: computeQuote_def nmax_ge)
  show "bid (computeQuote p) = NaN"
    if "nadd (Fin 1) (ndiv (gamma p) (k (buy p))) = Fin x \<and> x < 0" for x
    using s that
    by (simp add: computeQuote_def bidPriceDistance_def computeTerms_def nmin_NaN_iff Let_def)
  show "ask (computeQuote p) = NaN"
    if "nadd (Fin 1) (ndiv (gamma p) (k (sell p))) = Fin x \<and> x < 0" for x
    using s that
    by (simp add: computeQuote_def askPriceDistance_def computeTerms_def nmax_NaN_iff Let_def)
qed

theorem computeQuote_never_crosses_mid_witness:
  "sanity \<lparr> sigma = Fin 1, mu = Fin 0, gamma = Fin 1, buy = \<lparr> A = Fin 1, k = Fin 1 \<rparr>,
            sell = \<lparr> A = Fin 1, k = Fin 1 \<rparr>, midPrice = Fin 100, inventory = Fin 0,
            includeDrift = False \<rparr>
   \<and> nle (bid (computeQuote
              \<lparr> sigma = Fin 1, mu = Fin 0, gamma = Fin 1, buy = \<lparr> A = Fin 1, k = Fin 1 \<rparr>,
                sell = \<lparr> A = Fin 1, k = Fin 1 \<rparr>, midPrice = Fin 100, inventory = Fin 0,
                includeDrift = False \<rparr>)) (Fin 100)
   \<and> nle (Fin 100)
         (ask (computeQuote
              \<lparr> sigma = Fin 1, mu = Fin 0, gamma = Fin 1, buy = \<lparr> A = Fin 1, k = Fin 1 \<rparr>,
                sell = \<lparr> A = Fin 1, k = Fin 1 \<rparr>, midPrice = Fin 100, inventory = Fin 0,
                includeDrift = False \<rparr>))"
proof -
  let ?p = "\<lparr> sigma = Fin 1, mu = Fin 0, gamma = Fin 1, buy = \<lparr> A = Fin 1, k = Fin 1 \<rparr>,
              sell = \<lparr> A = Fin 1, k = Fin 1 \<rparr>, midPrice = Fin 100, inventory = Fin 0,
              includeDrift = False \<rparr>"
  obtain d where d: "nadd (nmul (Fin 1) (fl (ln 2))) (nmul (Fin (1 / 2)) (fl (sqrt 2))) = Fin d"
    "\<bar>d\<bar> \<le> 64"
    using unit_distance by blast
  have s: "sanity ?p" by (simp add: sanity_def ntruthy_def)
  have t: "computeTerms (Fin 1) (Fin 1) (Fin 1) (Fin 1) =
             \<lparr> lnTerm = nmul (Fin 1) (fl (ln 2)), sqrtTerm = fl (sqrt 2) \<rparr>"
    by (simp add: computeTerms_def fl_1 fl_half fl_numeral nmax_def)
  have bd: "bidPriceDistance ?p = Fin d"
    by (simp add: bidPriceDistance_def t fl_0 fl_1 fl_half d(1))
  have ad: "askPriceDistance ?p = Fin d"
    by (simp add: askPriceDistance_def t nsub_def fl_0 fl_1 fl_neg_1 fl_half d(1))
  have "\<bar>100 - d\<bar> \<le> 2 ^ 1000" using d(2) by (simp add: abs_le_iff)
  with fl_finite [of "100 - d"] have b: "nsub (midPrice ?p) (bidPriceDistance ?p) \<noteq> NaN"
    by (auto simp: bd nsub_def)
  have "\<bar>100 + d\<bar> \<le> 2 ^ 1000" using d(2) by (simp add: abs_le_iff)
  with fl_finite [of "100 + d"] have a: "nadd (midPrice ?p) (askPriceDistance ?p) \<noteq> NaN"
    by (auto simp: ad)
  from computeQuote_never_crosses_mid [of ?p] s a b
  have "nle (bid (computeQuote ?p)) (midPrice ?p) \<and> nle (midPrice ?p) (ask (computeQuote ?p))"
    by blast
  with s show ?thesis by simp
qed

subsection \<open>checkDrawdown\<close>



section \<open>Lemmas on the exchange state mirror\<close>

subsection \<open>The balance primitives change the balances only\<close>

lemma ensureBalance_frame [simp]:
  "ccxtExchange (ensureBalance c s) = ccxtExchange s"
  "dryRun (ensureBalance c s) = dryRun s"
  "slippage (ensureBalance c s) = slippage s"
  "simulation (ensureBalance c s) = simulation s"
  "reserves (ensureBalance c s) = reserves s"
  "minDealAmounts (ensureBalance c s) = minDealAmounts s"
  "lockdown (ensureBalance c s) = lockdown s"
  "cancelledOrders (ensureBalance c s) = cancelledOrders s"
  "closedOrders (ensureBalance c s) = closedOrders s"
  "openOrders (ensureBalance c s) = openOrders s"
  "tickers (ensureBalance c s) = tickers s"
  "orderBooks (ensureBalance c s) = orderBooks s"
  "state_fee (ensureBalance c s) = state_fee s"
  "forceAutoCancel (ensureBalance c s) = forceAutoCancel s"
  by (simp_all add: ensureBalance_def split: option.splits)

lemma private_deposit_frame [simp]:
  "ccxtExchange (private_deposit c amt s) = ccxtExchange s"
  "dryRun (private_deposit c amt s) = dryRun s"
  "slippage (private_deposit c amt s) = slippage s"
  "simulation (private_deposit c amt s) = simulation s"
  "reserves (private_deposit c amt s) = reserves s"
  "minDealAmounts (private_deposit c amt s) = minDealAmounts s"
  "lockdown (private_deposit c amt s) = lockdown s"
  "cancelledOrders (private_deposit c amt s) = cancelledOrders s"
  "closedOrders (private_deposit c amt s) = closedOrders s"
  "openOrders (private_deposit c amt s) = openOrders s"
  "tickers (private_deposit c amt s) = tickers s"
  "orderBooks (private_deposit c amt s) = orderBooks s"
  "state_fee (private_deposit c amt s) = state_fee s"
  "forceAutoCancel (private_deposit c amt s) = forceAutoCancel s"
  by (simp_all add: private_deposit_def ensureBalance_def Let_def split: option.splits)

lemma private_withdraw_frame [simp]:
  "ccxtExchange (private_withdraw c amt s) = ccxtExchange s"
  "dryRun (private_withdraw c amt s) = dryRun s"
  "slippage (private_withdraw c amt s) = slippage s"
  "simulation (private_withdraw c amt s) = simulation s"
  "reserves (private_withdraw c amt s) = reserves s"
  "minDealAmounts (private_withdraw c amt s) = minDealAmounts s"
  "lockdown (private_withdraw c amt s) = lockdown s"
  "cancelledOrders (private_withdraw c amt s) = cancelledOrders s"
  "closedOrders (private_withdraw c amt s) = closedOrders s"
  "openOrders (private_withdraw c amt s) = openOrders s"
  "tickers (private_withdraw c amt s) = tickers s"
  "orderBooks (private_withdraw c amt s) = orderBooks s"
  "state_fee (private_withdraw c amt s) = state_fee s"
  "forceAutoCancel (private_withdraw c amt s) = forceAutoCancel s"
  by (simp_all add: private_withdraw_def ensureBalance_def Let_def split: option.splits)

lemma private_withdrawFromUsed_frame [simp]:
  "ccxtExchange (private_withdrawFromUsed c amt s) = ccxtExchange s"
  "dryRun (private_withdrawFromUsed c amt s) = dryRun s"
  "slippage (private_withdrawFromUsed c amt s) = slippage s"
  "simulation (private_withdrawFromUsed c amt s) = simulation s"
  "reserves (private_withdrawFromUsed c amt s) = reserves s"
  "minDealAmounts (private_withdrawFromUsed c amt s) = minDealAmounts s"
  "lockdown (private_withdrawFromUsed c amt s) = lockdown s"
  "cancelledOrders (private_withdrawFromUsed c amt s) = cancelledOrders s"
  "closedOrders (private_withdrawFromUsed c amt s) = closedOrders s"
  "openOrders (private_withdrawFromUsed c amt s) = openOrders s"
  "tickers (private_withdrawFromUsed c amt s) = tickers s"
  "orderBooks (private_withdrawFromUsed c amt s) = orderBooks s"
  "state_fee (private_withdrawFromUsed c amt s) = state_fee s"
  "forceAutoCancel (private_withdrawFromUsed c amt s) = forceAutoCancel s"
  by (simp_all add: private_withdrawFromUsed_def ensureBalance_def Let_def split: option.splits)

lemma private_reserve_frame [simp]:
  "ccxtExchange (private_reserve c amt s) = ccxtExchange s"
  "dryRun (private_reserve c amt s) = dryRun s"
  "slippage (private_reserve c amt s) = slippage s"
  "simulation (private_reserve c amt s) = simulation s"
  "reserves (private_reserve c amt s) = reserves s"
  "minDealAmounts (private_reserve c amt s) = minDealAmounts s"
  "lockdown (private_reserve c amt s) = lockdown s"
  "cancelledOrders (private_reserve c amt s) = cancelledOrders s"
  "closedOrders (private_reserve c amt s) = closedOrders s"
  "openOrders (private_reserve c amt s) = openOrders s"
  "tickers (private_reserve c amt s) = tickers s"
  "orderBooks (private_reserve c amt s) = orderBooks s"
  "state_fee (private_reserve c amt s) = state_fee s"
  "forceAutoCancel (private_reserve c amt s) = forceAutoCancel s"
  by (simp_all add: private_reserve_def ensureBalance_def Let_def split: option.splits)

lemma private_release_frame [simp]:
  "ccxtExchange (private_release c amt s) = ccxtExchange s"
  "dryRun (private_release c amt s) = dryRun s"
  "slippage (private_release c amt s) = slippage s"
  "simulation (private_release c amt s) = simulation s"
  "reserves (private_release c amt s) = reserves s"
  "minDealAmounts (private_release c amt s) = minDealAmounts s"
  "lockdown (private_release c amt s) = lockdown s"
  "cancelledOrders (private_release c amt s) = cancelledOrders s"
  "closedOrders (private_release c amt s) = closedOrders s"
  "openOrders (private_release c amt s) = openOrders s"
  "tickers (private_release c amt s) = tickers s"
  "orderBooks (private_release c amt s) = orderBooks s"
  "state_fee (private_release c amt s) = state_fee s"
  "forceAutoCancel (private_release c amt s) = forceAutoCancel s"
  by (simp_all add: private_release_def ensureBalance_def Let_def split: option.splits)

subsection \<open>getBalance\<close>

lemma getBalance_None [simp]: "getBalance None s = (Inl TypeError, s)"
  by (simp add: getBalance_def)

lemma getBalance_Some:
  "getBalance (Some cm) s =
     (Inr \<lparr> raw_free = free (balanceOf (ensureBalance (currencyOf cm) s) (currencyOf cm)),
            raw_used = used (balanceOf (ensureBalance (currencyOf cm) s) (currencyOf cm)),
            locked = min (reserveOf (ensureBalance (currencyOf cm) s) (currencyOf cm))
                         (free (balanceOf (ensureBalance (currencyOf cm) s) (currencyOf cm))) \<rparr>,
      ensureBalance (currencyOf cm) s)"
  by (simp add: getBalance_def Let_def)

subsection \<open>Market names\<close>

lemma js_split_nonempty: "js_split c xs \<noteq> []"
  by (induction xs) (auto split: list.splits)

lemma baseCurrencyOf_Some: "\<exists>b. baseCurrencyOf m = Some b"
  using js_split_nonempty [of "CHR ''/''" m]
  by (cases "js_split CHR ''/'' m") (simp_all add: baseCurrencyOf_def js_index_def)

subsection \<open>The sum free + used\<close>

lemma roundoff_nonneg: "0 \<le> roundoff s c"
  by (simp add: roundoff_def)

lemma totalOf_ensureBalance [simp]: "totalOf (ensureBalance c s) c' = totalOf s c'"
  by (simp add: totalOf_def ensureBalance_def balanceOf_def split: option.splits)

lemma roundoff_ensureBalance [simp]: "roundoff (ensureBalance c s) c' = roundoff s c'"
  by (simp add: roundoff_def ensureBalance_def balanceOf_def split: option.splits)

lemma totalOf_orders [simp]:
  "totalOf (s\<lparr>openOrders := x\<rparr>) c = totalOf s c"
  "totalOf (s\<lparr>closedOrders := y\<rparr>) c = totalOf s c"
  "totalOf (s\<lparr>cancelledOrders := z\<rparr>) c = totalOf s c"
  by (simp_all add: totalOf_def balanceOf_def)

lemma roundoff_orders [simp]:
  "roundoff (s\<lparr>openOrders := x\<rparr>) c = roundoff s c"
  "roundoff (s\<lparr>closedOrders := y\<rparr>) c = roundoff s c"
  "roundoff (s\<lparr>cancelledOrders := z\<rparr>) c = roundoff s c"
  by (simp_all add: roundoff_def balanceOf_def)

text \<open>Moving an amount between two fields changes their sum by two rounding errors.\<close>

lemma moved_sum:
  "\<bar>(fl64 (f - a) + fl64 (u + a)) - (f + u)\<bar>
     \<le> 2 powr (- 53) * (\<bar>fl64 (f - a)\<bar> + \<bar>fl64 (u + a)\<bar>) + 2 powr (- 1074)"
proof -
  have "(2::real) powr (- 1074) = 2 * 2 powr (- 1075)"
    by (simp add: powr_neg_numeral)
  moreover have "(fl64 (f - a) + fl64 (u + a)) - (f + u)
                 = (fl64 (f - a) - (f - a)) + (fl64 (u + a) - (u + a))"
    by simp
  ultimately show ?thesis
    using fl64_error [of "f - a"] fl64_error [of "u + a"]
    by (simp only: distrib_left)
qed

lemma totalOf_private_reserve:
  "\<bar>totalOf (private_reserve c amt s) c' - totalOf s c'\<bar> \<le> roundoff (private_reserve c amt s) c'"
proof (cases "c' = c")
  case False
  then have "totalOf (private_reserve c amt s) c' = totalOf s c'"
    by (simp add: totalOf_def private_reserve_def ensureBalance_def balanceOf_def Let_def
        split: option.splits)
  then show ?thesis by (simp add: roundoff_nonneg)
next
  case True
  define b where "b = balanceOf (ensureBalance c s) c"
  define a where "a = min amt (max (dsub (free b) (reserveOf (ensureBalance c s) c)) 0)"
  have tb: "totalOf s c = free b + used b"
    using totalOf_ensureBalance [of c s c] by (simp add: totalOf_def b_def)
  have nb: "balanceOf (private_reserve c amt s) c =
              b\<lparr>free := fl64 (free b - a), used := fl64 (used b + a)\<rparr>"
    by (simp add: private_reserve_def Let_def balanceOf_def b_def a_def dsub_def dadd_def)
  have t1: "totalOf (private_reserve c amt s) c = fl64 (free b - a) + fl64 (used b + a)"
    by (simp add: totalOf_def nb)
  have r1: "roundoff (private_reserve c amt s) c =
              2 powr (- 53) * (\<bar>fl64 (free b - a)\<bar> + \<bar>fl64 (used b + a)\<bar>) + 2 powr (- 1074)"
    by (simp add: roundoff_def nb)
  show ?thesis
    unfolding True t1 r1 tb by (rule moved_sum)
qed

lemma totalOf_private_release:
  "\<bar>totalOf (private_release c amt s) c' - totalOf s c'\<bar> \<le> roundoff (private_release c amt s) c'"
proof (cases "c' = c")
  case False
  then have "totalOf (private_release c amt s) c' = totalOf s c'"
    by (simp add: totalOf_def private_release_def ensureBalance_def balanceOf_def Let_def
        split: option.splits)
  then show ?thesis by (simp add: roundoff_nonneg)
next
  case True
  define b where "b = balanceOf (ensureBalance c s) c"
  define a where "a = min amt (used b)"
  have tb: "totalOf s c = free b + used b"
    using totalOf_ensureBalance [of c s c] by (simp add: totalOf_def b_def)
  have nb: "balanceOf (private_release c amt s) c =
              b\<lparr>free := fl64 (free b + a), used := fl64 (used b - a)\<rparr>"
    by (simp add: private_release_def Let_def balanceOf_def b_def a_def dsub_def dadd_def)
  have t1: "totalOf (private_release c amt s) c = fl64 (used b - a) + fl64 (free b + a)"
    by (simp add: totalOf_def nb)
  have r1: "roundoff (private_release c amt s) c =
              2 powr (- 53) * (\<bar>fl64 (used b - a)\<bar> + \<bar>fl64 (free b + a)\<bar>) + 2 powr (- 1074)"
    by (simp add: roundoff_def nb)
  have tb': "totalOf s c = used b + free b" using tb by simp
  show ?thesis
    unfolding True t1 r1 tb' by (rule moved_sum)
qed

lemma reserve_after:
  "totalOf s1 c = t \<Longrightarrow>
   \<bar>totalOf (private_reserve q amt s1) c - t\<bar> \<le> roundoff (private_reserve q amt s1) c"
  using totalOf_private_reserve [of q amt s1 c] by simp

lemma release_after:
  "totalOf s1 c = t \<Longrightarrow>
   \<bar>totalOf (private_release q amt s1) c - t\<bar> \<le> roundoff (private_release q amt s1) c"
  using totalOf_private_release [of q amt s1 c] by simp

lemma totalOf_cancelOrder:
  "\<bar>totalOf (snd (cancelOrder now ord s)) c - totalOf s c\<bar> \<le> roundoff (snd (cancelOrder now ord s)) c"
proof (cases "quoteCurrencyOf (market ord)")
  case None
  then show ?thesis by (simp add: cancelOrder_def roundoff_nonneg)
next
  case (Some q)
  obtain b where b: "baseCurrencyOf (market ord) = Some b"
    using baseCurrencyOf_Some by blast
  show ?thesis using Some b
    by (simp add: cancelOrder_def getBalance_Some Let_def roundoff_nonneg release_after)
qed

lemma totalOf_placeOrder:
  assumes "opt_type options = Limit"
  shows "\<bar>totalOf (snd (placeOrder now newId options prc stk fp pl s)) c - totalOf s c\<bar>
           \<le> roundoff (snd (placeOrder now newId options prc stk fp pl s)) c"
proof (cases "quoteCurrencyOf (opt_market options)")
  case None
  then show ?thesis by (simp add: placeOrder_def roundoff_nonneg)
next
  case (Some q)
  obtain b where b: "baseCurrencyOf (opt_market options) = Some b"
    using baseCurrencyOf_Some by blast
  show ?thesis using Some b assms
    by (cases "opt_side options"; cases "ccxtExchange s";
        cases "simulation s"; cases "dryRun s")
      (simp_all add: placeOrder_def getBalance_Some Let_def roundoff_nonneg reserve_after
        split: option.splits)
qed

lemma totalOf_createOrder:
  assumes "opt_type options = Limit"
  shows "\<bar>totalOf (snd (createOrder now newId options s)) c - totalOf s c\<bar>
           \<le> roundoff (snd (createOrder now newId options s)) c"
  using totalOf_placeOrder [OF assms]
  by (simp add: createOrder_def Let_def roundoff_nonneg split: sum.splits)

lemma totalOf_runCall:
  "isLimitCall call \<Longrightarrow> \<bar>totalOf (runCall call s) c - totalOf s c\<bar> \<le> roundoff (runCall call s) c"
  by (cases call) (simp_all add: totalOf_createOrder totalOf_cancelOrder)

lemma totalOf_runCalls:
  "list_all isLimitCall calls \<Longrightarrow>
   \<bar>totalOf (runCalls calls s) c - totalOf s c\<bar> \<le> roundoffs calls s c"
proof (induction calls arbitrary: s)
  case Nil
  then show ?case by (simp add: runCalls_def)
next
  case (Cons call calls)
  have r: "runCalls (call # calls) s = runCalls calls (runCall call s)"
    by (simp add: runCalls_def)
  from Cons.prems have 1: "\<bar>totalOf (runCall call s) c - totalOf s c\<bar> \<le> roundoff (runCall call s) c"
    by (simp add: totalOf_runCall)
  from Cons.prems have 2: "\<bar>totalOf (runCalls calls (runCall call s)) c - totalOf (runCall call s) c\<bar>
          \<le> roundoffs calls (runCall call s) c"
    by (simp add: Cons.IH)
  from 1 2 show ?case unfolding r by simp
qed

subsection \<open>cancelOrder\<close>

lemma cancelOrder_throws_iff:
  assumes "quoteCurrencyOf (market ord) = Some q"
  shows "(\<exists>e. fst (cancelOrder now ord s) = Inl e) \<longleftrightarrow> (lockdown s \<or> status ord \<noteq> ''open'')"
proof -
  obtain b where b: "baseCurrencyOf (market ord) = Some b"
    using baseCurrencyOf_Some by blast
  show ?thesis using assms b
    by (simp add: cancelOrder_def getBalance_Some Let_def)
qed

lemma cancelOrder_simulation:
  assumes "quoteCurrencyOf (market ord) = Some q"
    and "simulation s" and "\<not> lockdown s" and "status ord = ''open''"
  shows "cancelledOrders (snd (cancelOrder now ord s)) =
           AList.update (order_id ord)
             (if filled ord > 0 then ord\<lparr>timestampClosed := Some now\<rparr> else ord) (cancelledOrders s)"
    and "openOrders (snd (cancelOrder now ord s)) = AList.delete (order_id ord) (openOrders s)"
    and "closedOrders (snd (cancelOrder now ord s)) =
           (if filled ord > 0
            then AList.update (order_id ord) (ord\<lparr>timestampClosed := Some now\<rparr>) (closedOrders s)
            else closedOrders s)"
proof -
  obtain b where b: "baseCurrencyOf (market ord) = Some b"
    using baseCurrencyOf_Some by blast
  show "cancelledOrders (snd (cancelOrder now ord s)) =
           AList.update (order_id ord)
             (if filled ord > 0 then ord\<lparr>timestampClosed := Some now\<rparr> else ord) (cancelledOrders s)"
    using assms b by (simp add: cancelOrder_def getBalance_Some Let_def)
  show "openOrders (snd (cancelOrder now ord s)) = AList.delete (order_id ord) (openOrders s)"
    using assms b by (simp add: cancelOrder_def getBalance_Some Let_def)
  show "closedOrders (snd (cancelOrder now ord s)) =
           (if filled ord > 0
            then AList.update (order_id ord) (ord\<lparr>timestampClosed := Some now\<rparr>) (closedOrders s)
            else closedOrders s)"
    using assms b by (simp add: cancelOrder_def getBalance_Some Let_def)
qed

lemma cancelOrder_throw_unchanged:
  assumes "fst (cancelOrder now ord s) = Inl e"
  shows "snd (cancelOrder now ord s) = s"
proof (cases "quoteCurrencyOf (market ord)")
  case None
  then show ?thesis by (simp add: cancelOrder_def)
next
  case (Some q)
  obtain b where b: "baseCurrencyOf (market ord) = Some b"
    using baseCurrencyOf_Some by blast
  show ?thesis
  proof (cases "lockdown s \<or> status ord \<noteq> ''open''")
    case True
    then show ?thesis by (auto simp: cancelOrder_def)
  next
    case False
    then have "fst (cancelOrder now ord s) = Inr ()"
      using Some b by (simp add: cancelOrder_def getBalance_Some Let_def)
    with assms show ?thesis by simp
  qed
qed

subsection \<open>purgeOrderList\<close>

lemma map_of_purgeClosed:
  "map_of (purgeClosed now m ids cl) x =
     (case map_of cl x of
        None \<Rightarrow> None
      | Some ord \<Rightarrow> if x \<in> set ids \<and> \<not> otherMarket m ord \<and> timestamp ord + purgeAge < now
                    then None else Some ord)"
proof (induction ids arbitrary: cl)
  case Nil
  then show ?case by (simp split: option.splits)
next
  case (Cons i ids)
  show ?case
    by (auto simp: Cons.IH AList.delete_conv' split: option.splits)
qed

lemma map_of_purgeCancelled:
  "map_of (purgeCancelled now ids cl) x =
     (case map_of cl x of
        None \<Rightarrow> None
      | Some ord \<Rightarrow> if x \<in> set ids \<and> timestamp ord + purgeAge < now
                    then None else Some ord)"
proof (induction ids arbitrary: cl)
  case Nil
  then show ?case by (simp split: option.splits)
next
  case (Cons i ids)
  show ?case
    by (auto simp: Cons.IH AList.delete_conv' split: option.splits)
qed

lemma map_of_Some_key: "map_of al x = Some v \<Longrightarrow> x \<in> set (map fst al)"
  by (metis map_of_eq_None_iff option.distinct(1) set_map)


subsection \<open>The reconciliation cycle leaves the tickers alone\<close>

lemma case_result:
  "(case p of (Inl e, s1) \<Rightarrow> f e s1 | (Inr b, s1) \<Rightarrow> g b s1) =
   (case fst p of Inl e \<Rightarrow> f e (snd p) | Inr b \<Rightarrow> g b (snd p))"
  by (cases p; cases "fst p") auto

lemma tickers_getBalance [simp]: "tickers (snd (getBalance c s)) = tickers s"
  by (cases c) (simp_all add: getBalance_Some)

lemma tickers_cancelOrder [simp]: "tickers (snd (cancelOrder now ord s)) = tickers s"
proof (cases "quoteCurrencyOf (market ord)")
  case None
  then show ?thesis by (simp add: cancelOrder_def)
next
  case (Some q)
  obtain b where b: "baseCurrencyOf (market ord) = Some b"
    using baseCurrencyOf_Some by blast
  show ?thesis using Some b
    by (simp add: cancelOrder_def getBalance_Some Let_def)
qed

lemma tickers_checkFullfillOrder [simp]: "tickers (snd (checkFullfillOrder now ord s)) = tickers s"
proof (cases "quoteCurrencyOf (market ord)")
  case None
  then show ?thesis by (simp add: checkFullfillOrder_def)
next
  case (Some q)
  obtain b where b: "baseCurrencyOf (market ord) = Some b"
    using baseCurrencyOf_Some by blast
  show ?thesis using Some b
    by (simp add: checkFullfillOrder_def getBalance_Some Let_def split: sum.splits option.splits)
qed

lemma tickers_promiseAll:
  assumes "\<And>x s. tickers (snd (f x s)) = tickers s"
  shows "tickers (snd (promiseAll f xs s)) = tickers s"
proof (induction xs arbitrary: s)
  case Nil
  show ?case by simp
next
  case (Cons x xs)
  obtain r s1 where f: "f x s = (r, s1)" by (cases "f x s")
  then have t: "tickers s1 = tickers s" using assms [of x s] by simp
  show ?case using f t Cons.IH [of s1] by (cases r) simp_all
qed

lemma tickers_fulfillLimitOrders [simp]:
  "tickers (snd (fulfillLimitOrders now m s)) = tickers s"
  unfolding fulfillLimitOrders_def by (rule tickers_promiseAll) simp

lemma tickers_syncLocalOrders [simp]:
  "tickers (snd (syncLocalOrders now m idMap ids s)) = tickers s"
proof (induction ids arbitrary: s)
  case Nil
  show ?case by simp
next
  case (Cons orderId ids)
  show ?case
    by (simp add: Cons.IH Let_def case_result split: option.splits sum.splits)
qed

lemma tickers_syncRemoteOrders [simp]:
  "tickers (snd (syncRemoteOrders now orders s)) = tickers s"
proof (induction orders arbitrary: s)
  case Nil
  show ?case by simp
next
  case (Cons ccxtOrder rest)
  show ?case
    by (simp add: Cons.IH case_result split: option.splits sum.splits)
qed

lemma tickers_dropZombieOrders [simp]:
  "tickers (snd (dropZombieOrders r m ids n s)) = tickers s"
proof (induction ids arbitrary: n s)
  case Nil
  show ?case by simp
next
  case (Cons orderId ids)
  show ?case
    by (simp add: Cons.IH split: option.splits)
qed

lemma tickers_syncOrders [simp]: "tickers (snd (syncOrders now m s)) = tickers s"
  by (simp add: syncOrders_def Let_def case_result split: option.splits sum.splits)


subsection \<open>cancelOrder changes the balances and the order records only\<close>

lemma ccxtExchange_cancelOrder [simp]: "ccxtExchange (snd (cancelOrder now ord s)) = ccxtExchange s"
proof (cases "quoteCurrencyOf (market ord)")
  case None
  then show ?thesis by (simp add: cancelOrder_def)
next
  case (Some q)
  obtain b where b: "baseCurrencyOf (market ord) = Some b"
    using baseCurrencyOf_Some by blast
  show ?thesis using Some b
    by (simp add: cancelOrder_def getBalance_Some Let_def)
qed

lemma dryRun_cancelOrder [simp]: "dryRun (snd (cancelOrder now ord s)) = dryRun s"
proof (cases "quoteCurrencyOf (market ord)")
  case None
  then show ?thesis by (simp add: cancelOrder_def)
next
  case (Some q)
  obtain b where b: "baseCurrencyOf (market ord) = Some b"
    using baseCurrencyOf_Some by blast
  show ?thesis using Some b
    by (simp add: cancelOrder_def getBalance_Some Let_def)
qed

lemma slippage_cancelOrder [simp]: "slippage (snd (cancelOrder now ord s)) = slippage s"
proof (cases "quoteCurrencyOf (market ord)")
  case None
  then show ?thesis by (simp add: cancelOrder_def)
next
  case (Some q)
  obtain b where b: "baseCurrencyOf (market ord) = Some b"
    using baseCurrencyOf_Some by blast
  show ?thesis using Some b
    by (simp add: cancelOrder_def getBalance_Some Let_def)
qed

lemma simulation_cancelOrder [simp]: "simulation (snd (cancelOrder now ord s)) = simulation s"
proof (cases "quoteCurrencyOf (market ord)")
  case None
  then show ?thesis by (simp add: cancelOrder_def)
next
  case (Some q)
  obtain b where b: "baseCurrencyOf (market ord) = Some b"
    using baseCurrencyOf_Some by blast
  show ?thesis using Some b
    by (simp add: cancelOrder_def getBalance_Some Let_def)
qed

lemma reserves_cancelOrder [simp]: "reserves (snd (cancelOrder now ord s)) = reserves s"
proof (cases "quoteCurrencyOf (market ord)")
  case None
  then show ?thesis by (simp add: cancelOrder_def)
next
  case (Some q)
  obtain b where b: "baseCurrencyOf (market ord) = Some b"
    using baseCurrencyOf_Some by blast
  show ?thesis using Some b
    by (simp add: cancelOrder_def getBalance_Some Let_def)
qed

lemma minDealAmounts_cancelOrder [simp]: "minDealAmounts (snd (cancelOrder now ord s)) = minDealAmounts s"
proof (cases "quoteCurrencyOf (market ord)")
  case None
  then show ?thesis by (simp add: cancelOrder_def)
next
  case (Some q)
  obtain b where b: "baseCurrencyOf (market ord) = Some b"
    using baseCurrencyOf_Some by blast
  show ?thesis using Some b
    by (simp add: cancelOrder_def getBalance_Some Let_def)
qed

lemma lockdown_cancelOrder [simp]: "lockdown (snd (cancelOrder now ord s)) = lockdown s"
proof (cases "quoteCurrencyOf (market ord)")
  case None
  then show ?thesis by (simp add: cancelOrder_def)
next
  case (Some q)
  obtain b where b: "baseCurrencyOf (market ord) = Some b"
    using baseCurrencyOf_Some by blast
  show ?thesis using Some b
    by (simp add: cancelOrder_def getBalance_Some Let_def)
qed

lemma orderBooks_cancelOrder [simp]: "orderBooks (snd (cancelOrder now ord s)) = orderBooks s"
proof (cases "quoteCurrencyOf (market ord)")
  case None
  then show ?thesis by (simp add: cancelOrder_def)
next
  case (Some q)
  obtain b where b: "baseCurrencyOf (market ord) = Some b"
    using baseCurrencyOf_Some by blast
  show ?thesis using Some b
    by (simp add: cancelOrder_def getBalance_Some Let_def)
qed

lemma state_fee_cancelOrder [simp]: "state_fee (snd (cancelOrder now ord s)) = state_fee s"
proof (cases "quoteCurrencyOf (market ord)")
  case None
  then show ?thesis by (simp add: cancelOrder_def)
next
  case (Some q)
  obtain b where b: "baseCurrencyOf (market ord) = Some b"
    using baseCurrencyOf_Some by blast
  show ?thesis using Some b
    by (simp add: cancelOrder_def getBalance_Some Let_def)
qed

lemma forceAutoCancel_cancelOrder [simp]: "forceAutoCancel (snd (cancelOrder now ord s)) = forceAutoCancel s"
proof (cases "quoteCurrencyOf (market ord)")
  case None
  then show ?thesis by (simp add: cancelOrder_def)
next
  case (Some q)
  obtain b where b: "baseCurrencyOf (market ord) = Some b"
    using baseCurrencyOf_Some by blast
  show ?thesis using Some b
    by (simp add: cancelOrder_def getBalance_Some Let_def)
qed


subsection \<open>cancelOrder and createOrder with the answers of the remote exchange\<close>

lemma cancelOrder_accepted:
  assumes "quoteCurrencyOf (market ord) = Some q"
    and "cancelAccepted ord s" and "\<not> lockdown s" and "status ord = ''open''"
  shows "cancelledOrders (snd (cancelOrder now ord s)) =
           AList.update (order_id ord)
             (if filled ord > 0 then ord\<lparr>timestampClosed := Some now\<rparr> else ord) (cancelledOrders s)"
    and "openOrders (snd (cancelOrder now ord s)) = AList.delete (order_id ord) (openOrders s)"
proof -
  obtain b where b: "baseCurrencyOf (market ord) = Some b"
    using baseCurrencyOf_Some by blast
  show "cancelledOrders (snd (cancelOrder now ord s)) =
           AList.update (order_id ord)
             (if filled ord > 0 then ord\<lparr>timestampClosed := Some now\<rparr> else ord) (cancelledOrders s)"
    using assms b
    by (cases "simulation s"; cases "dryRun s"; cases "ccxtExchange s")
      (simp_all add: cancelAccepted_def cancelOrder_def getBalance_Some Let_def)
  show "openOrders (snd (cancelOrder now ord s)) = AList.delete (order_id ord) (openOrders s)"
    using assms b
    by (cases "simulation s"; cases "dryRun s"; cases "ccxtExchange s")
      (simp_all add: cancelAccepted_def cancelOrder_def getBalance_Some Let_def)
qed

lemma syncOrderBook_frame:
  "snd (syncOrderBook ms s) = s\<lparr>orderBooks := orderBooks (snd (syncOrderBook ms s))\<rparr>"
  by (simp add: syncOrderBook_def split: option.splits)

lemma syncOrderBook_fields [simp]:
  "tickers (snd (syncOrderBook ms s)) = tickers s"
  "lockdown (snd (syncOrderBook ms s)) = lockdown s"
  "simulation (snd (syncOrderBook ms s)) = simulation s"
  "dryRun (snd (syncOrderBook ms s)) = dryRun s"
  "ccxtExchange (snd (syncOrderBook ms s)) = ccxtExchange s"
  "forceAutoCancel (snd (syncOrderBook ms s)) = forceAutoCancel s"
  "minDealAmounts (snd (syncOrderBook ms s)) = minDealAmounts s"
  "state_fee (snd (syncOrderBook ms s)) = state_fee s"
  "openOrders (snd (syncOrderBook ms s)) = openOrders s"
  "cancelledOrders (snd (syncOrderBook ms s)) = cancelledOrders s"
  "closedOrders (snd (syncOrderBook ms s)) = closedOrders s"
  by (simp_all add: syncOrderBook_def split: option.splits)

lemma placeOrder_limit_placed:
  assumes "opt_type options = Limit"
    and "quoteCurrencyOf (opt_market options) = Some q"
    and "baseCurrencyOf (opt_market options) = Some b"
    and "placedId newId (opt_market options) Limit (opt_side options) (opt_amount options) prc s
           = Some rid"
  shows "\<exists>amt. openOrders (snd (placeOrder now newId options prc stk fp pl s)) =
           AList.update rid
             \<lparr> order_id = rid, timestamp = now, timestampClosed = None, status = ''open'',
               market = opt_market options, order_type = Limit, side = opt_side options,
               price = prc, amount = amt, fee = dmul (opt_amount options) (state_fee s), filled = 0,
               remaining = opt_amount options, autoCancel = opt_autoCancel options,
               autoCancelAtFillPercentage = fp,
               autoCancelAtPriceLevel = Some pl,
               sticky = Some stk \<rparr>
             (openOrders s)"
  using assms
  apply (cases "opt_side options"; cases "ccxtExchange s"; cases "simulation s"; cases "dryRun s")
                 apply (simp_all add: placeOrder_def getBalance_Some Let_def placedId_def)
                 apply (rule exI, rule refl)+
  done

lemma createOrder_limit_unfold:
  assumes "tickers s (opt_market options) = Some t"
    and "\<not> lockdown s"
    and "truthy_num (opt_autoCancel options) \<or> \<not> forceAutoCancel s"
    and "0 < opt_amount options"
    and "opt_price options = Some p"
    and "0 < p"
    and "opt_type options = Limit"
  shows "createOrder now newId options s =
           placeOrder now newId options p
             (case opt_sticky options of None \<Rightarrow> False | Some b \<Rightarrow> b)
             (case opt_autoCancelAtFillPercentage options of None \<Rightarrow> Some 1 | Some v \<Rightarrow> v)
             (case opt_autoCancelAtPriceLevel options of
                None \<Rightarrow> (if opt_side options = Buy then Infinity else Finite 0)
              | Some l \<Rightarrow> l) s"
  using assms by (auto simp: createOrder_def getTicker_def Let_def)

lemma createOrder_limit_placed:
  assumes "tickers s (opt_market options) = Some t"
    and "\<not> lockdown s"
    and "truthy_num (opt_autoCancel options) \<or> \<not> forceAutoCancel s"
    and "0 < opt_amount options"
    and "opt_price options = Some p"
    and "0 < p"
    and "opt_type options = Limit"
    and "quoteCurrencyOf (opt_market options) = Some q"
    and "placedId newId (opt_market options) Limit (opt_side options) (opt_amount options) p s
           = Some rid"
  shows "\<exists>amt. openOrders (snd (createOrder now newId options s)) =
           AList.update rid
             \<lparr> order_id = rid, timestamp = now, timestampClosed = None, status = ''open'',
               market = opt_market options, order_type = Limit, side = opt_side options,
               price = p, amount = amt, fee = dmul (opt_amount options) (state_fee s), filled = 0,
               remaining = opt_amount options, autoCancel = opt_autoCancel options,
               autoCancelAtFillPercentage =
                 (case opt_autoCancelAtFillPercentage options of None \<Rightarrow> Some 1 | Some v \<Rightarrow> v),
               autoCancelAtPriceLevel =
                 Some (case opt_autoCancelAtPriceLevel options of
                         None \<Rightarrow> (if opt_side options = Buy then Infinity else Finite 0)
                       | Some l \<Rightarrow> l),
               sticky = Some (case opt_sticky options of None \<Rightarrow> False | Some b \<Rightarrow> b) \<rparr>
             (openOrders s)"
proof -
  obtain b where b: "baseCurrencyOf (opt_market options) = Some b"
    using baseCurrencyOf_Some by blast
  show ?thesis
    unfolding createOrder_limit_unfold [OF assms(1-7)]
    by (rule placeOrder_limit_placed [OF assms(7,8) b assms(9)])
qed

subsection \<open>The sticky update\<close>

lemma cancelOrder_succeeds:
  assumes "quoteCurrencyOf (market ord) = Some q"
    and "\<not> lockdown s" and "status ord = ''open''"
  shows "cancelOrder now ord s = (Inr (), snd (cancelOrder now ord s))"
proof -
  have "fst (cancelOrder now ord s) \<noteq> Inl e" for e
    using cancelOrder_throws_iff [OF assms(1), of now s] assms(2,3) by auto
  then have "fst (cancelOrder now ord s) = Inr ()"
    by (cases "fst (cancelOrder now ord s)") auto
  then show ?thesis by (simp add: prod_eq_iff)
qed

lemma placedId_frame:
  assumes "ccxtExchange s' = ccxtExchange s" and "simulation s' = simulation s"
    and "dryRun s' = dryRun s"
  shows "placedId newId mkt typ sd amt prc s' = placedId newId mkt typ sd amt prc s"
  using assms by (simp add: placedId_def split: option.splits)

lemma updateStickyOrder_same_price:
  assumes "truthy_bool (sticky ord)"
    and "tickers s (market ord) = Some ticker"
    and "s1 = snd (syncOrderBook [market ord] s)"
    and "price ord = stickyNewPrice ticker (getOrderBook (market ord) s1) ord"
  shows "updateStickyOrder now newId ord s = (Inr (), s\<lparr>orderBooks := orderBooks s1\<rparr>)"
proof -
  have "updateStickyOrder now newId ord s = (Inr (), s1)"
    using assms(1,2,4) unfolding assms(3)
    by (simp add: updateStickyOrder_def getTicker_def Let_def)
  moreover have "s1 = s\<lparr>orderBooks := orderBooks s1\<rparr>"
    unfolding assms(3) by (rule syncOrderBook_frame)
  ultimately show ?thesis by simp
qed

lemma updateStickyOrder_steps:
  assumes "truthy_bool (sticky ord)"
    and "status ord = ''open''"
    and "\<not> lockdown s"
    and "tickers s (market ord) = Some ticker"
    and "quoteCurrencyOf (market ord) = Some q"
    and "s1 = snd (syncOrderBook [market ord] s)"
    and "newPrice = stickyNewPrice ticker (getOrderBook (market ord) s1) ord"
    and "price ord \<noteq> newPrice"
    and "s2 = snd (cancelOrder now ord s1)"
    and "s3 = s2\<lparr>cancelledOrders := AList.delete (order_id ord) (cancelledOrders s2)\<rparr>"
  shows "snd (updateStickyOrder now newId ord s) =
           (if (\<not> truthy_num (autoCancel ord)
                \<or> (case remainingAutoCancel now ord of None \<Rightarrow> False | Some n \<Rightarrow> n > 0))
               \<and> remaining ord \<ge> getMinDealAmount (market ord) s
            then snd (createOrder now newId
                        (stickyReplacement ord newPrice (remainingAutoCancel now ord)) s3)
            else s3)"
proof -
  have l1: "\<not> lockdown s1" using assms(3) by (simp add: assms(6))
  have c: "cancelOrder now ord s1 = (Inr (), s2)"
    unfolding assms(9) using assms(5) l1 assms(2) by (rule cancelOrder_succeeds)
  have m: "getMinDealAmount (market ord) s3 = getMinDealAmount (market ord) s"
    by (simp add: getMinDealAmount_def assms(10) assms(9) assms(6))
  show ?thesis
    using assms(1,4,8) assms(7) [symmetric]
    by (simp add: updateStickyOrder_def getTicker_def c m Let_def
        assms(6) [symmetric] assms(10) [symmetric])
qed

lemma updateStickyOrder_replaces:
  assumes "truthy_bool (sticky ord)"
    and "status ord = ''open''"
    and "\<not> lockdown s"
    and "tickers s (market ord) = Some ticker"
    and "quoteCurrencyOf (market ord) = Some q"
    and "cancelAccepted ord s"
    and "s1 = snd (syncOrderBook [market ord] s)"
    and "newPrice = stickyNewPrice ticker (getOrderBook (market ord) s1) ord"
    and "price ord \<noteq> newPrice"
    and "\<not> truthy_num (autoCancel ord) \<or> (\<exists>n. remainingAutoCancel now ord = Some n \<and> 0 < n)"
    and "truthy_num (remainingAutoCancel now ord) \<or> \<not> forceAutoCancel s"
    and "remaining ord \<ge> getMinDealAmount (market ord) s"
    and "0 < remaining ord"
    and "0 < newPrice"
    and "placedId newId (market ord) Limit (side ord) (remaining ord) newPrice s = Some rid"
  shows "\<exists>amt. openOrders (snd (updateStickyOrder now newId ord s)) =
           AList.update rid
             \<lparr> order_id = rid, timestamp = now, timestampClosed = None, status = ''open'',
               market = market ord, order_type = Limit, side = side ord,
               price = newPrice, amount = amt, fee = dmul (remaining ord) (state_fee s), filled = 0,
               remaining = remaining ord, autoCancel = remainingAutoCancel now ord,
               autoCancelAtFillPercentage = autoCancelAtFillPercentage ord,
               autoCancelAtPriceLevel = Some (if side ord = Buy then Infinity else Finite 0),
               sticky = Some True \<rparr>
             (AList.delete (order_id ord) (openOrders s))"
proof -
  define s2 where "s2 = snd (cancelOrder now ord s1)"
  define s3 where "s3 = s2\<lparr>cancelledOrders := AList.delete (order_id ord) (cancelledOrders s2)\<rparr>"
  let ?opts = "stickyReplacement ord newPrice (remainingAutoCancel now ord)"
  have g: "\<not> truthy_num (autoCancel ord)
           \<or> (case remainingAutoCancel now ord of None \<Rightarrow> False | Some n \<Rightarrow> n > 0)"
    using assms(10) by auto
  have u: "snd (updateStickyOrder now newId ord s) = snd (createOrder now newId ?opts s3)"
    using updateStickyOrder_steps [OF assms(1-5) assms(7-9) s2_def s3_def, of newId] g assms(12)
    by simp
  have l1: "\<not> lockdown s1" using assms(3) by (simp add: assms(7))
  have a1: "cancelAccepted ord s1" using assms(6) by (simp add: cancelAccepted_def assms(7))
  have o2: "openOrders s2 = AList.delete (order_id ord) (openOrders s1)"
    unfolding s2_def using assms(5) a1 l1 assms(2) by (rule cancelOrder_accepted(2))
  have o3: "openOrders s3 = AList.delete (order_id ord) (openOrders s)"
    by (simp add: s3_def o2 assms(7))
  have t3: "tickers s3 (opt_market ?opts) = Some ticker"
    using assms(4) by (simp add: stickyReplacement_def s3_def s2_def assms(7))
  have l3: "\<not> lockdown s3" using assms(3) by (simp add: s3_def s2_def assms(7))
  have a3: "truthy_num (opt_autoCancel ?opts) \<or> \<not> forceAutoCancel s3"
    using assms(11) by (simp add: stickyReplacement_def s3_def s2_def assms(7))
  have r3: "0 < opt_amount ?opts" using assms(13) by (simp add: stickyReplacement_def)
  have p3: "opt_price ?opts = Some newPrice" by (simp add: stickyReplacement_def)
  have y3: "opt_type ?opts = Limit" by (simp add: stickyReplacement_def)
  have q3: "quoteCurrencyOf (opt_market ?opts) = Some q"
    using assms(5) by (simp add: stickyReplacement_def)
  have e3: "state_fee s3 = state_fee s" by (simp add: s3_def s2_def assms(7))
  have "placedId newId (market ord) Limit (side ord) (remaining ord) newPrice s3 =
        placedId newId (market ord) Limit (side ord) (remaining ord) newPrice s"
    by (rule placedId_frame) (simp_all add: s3_def s2_def assms(7))
  with assms(15)
  have i3: "placedId newId (opt_market ?opts) Limit (opt_side ?opts) (opt_amount ?opts) newPrice s3
              = Some rid"
    by (simp add: stickyReplacement_def)
  from createOrder_limit_placed [OF t3 l3 a3 r3 p3 assms(14) y3 q3 i3, of now]
  show ?thesis unfolding u by (simp add: stickyReplacement_def o3 e3)
qed

text \<open>The sticky buy order of the fixture, evaluated.\<close>

lemma stickyFixture:
  "truthy_bool (sticky stickyBuyOrder)"
  "status stickyBuyOrder = ''open''"
  "\<not> lockdown stickyExchange"
  "tickers stickyExchange (market stickyBuyOrder) = Some (flatTicker 110)"
  "quoteCurrencyOf (market stickyBuyOrder) = Some ''USDT''"
  "cancelAccepted stickyBuyOrder stickyExchange"
  "getOrderBook (market stickyBuyOrder)
     (snd (syncOrderBook [market stickyBuyOrder] stickyExchange)) =
     \<lparr> bids = [(100, 1), (99, 5)], asks = [(111, 2), (112, 3)] \<rparr>"
  "stickyNewPrice (flatTicker 110)
     \<lparr> bids = [(100, 1), (99, 5)], asks = [(111, 2), (112, 3)] \<rparr> stickyBuyOrder = 99"
  "placedId ''a2'' (market stickyBuyOrder) Limit (side stickyBuyOrder)
     (remaining stickyBuyOrder) 99 stickyExchange = Some ''r7''"
  "price stickyBuyOrder = 100"
  "getMinDealAmount (market stickyBuyOrder) stickyExchange = 1"
  "remaining stickyBuyOrder = 1"
  "remainingAutoCancel 10 stickyBuyOrder = Some 990"
  "truthy_num (autoCancel stickyBuyOrder)"
  "side stickyBuyOrder = Buy"
  "autoCancelAtPriceLevel stickyBuyOrder = Some (Finite 120)"
  "order_id stickyBuyOrder = ''a1''"
  "\<not> forceAutoCancel stickyExchange"
  "\<not> simulation stickyExchange"
  by (simp_all add: stickyBuyOrder_def stickyExchange_def acceptingRemote_def
      rejectingRemote_def newExchange_def openLimitOrder_def flatTicker_def truthy_bool_def
      truthy_num_def quoteCurrencyOf_def js_index_def getOrderBook_def stickyNewPrice_def
      getMinDealAmount_def remainingAutoCancel_def cancelAccepted_def syncOrderBook_def
      placedId_def)

subsection \<open>The doubles 0.1, 0.3, 0.03 and 0.27\<close>

text \<open>
  The literals \<open>0.3\<close> and \<open>0.1\<close> are the doubles nearest to 3/10 and 1/10; the operations
  on them, evaluated: \<open>0.1 * 0.3 = 0.03\<close>, \<open>0.03 / 0.1 = 0.3\<close>, \<open>0.3 - 0.03 = 0.27\<close>, and
  \<open>0.27 + 0.03 = 0.30000000000000004\<close>, the double above \<open>0.3\<close>.
\<close>

lemma fl64_3_10: "fl64 (3 / 10) = 5404319552844595 / 18014398509481984"
  by (subst fl64_eval_neg [where n = 2]) (simp_all add: round_even_def)

lemma fl64_1_10: "fl64 (1 / 10) = 3602879701896397 / 36028797018963968"
  by (subst fl64_eval_neg [where n = 4]) (simp_all add: round_even_def)

lemma dmul_01_03: "dmul (3602879701896397 / 36028797018963968) (5404319552844595 / 18014398509481984) = 1080863910568919 / 36028797018963968"
  unfolding dadd_def dsub_def dmul_def ddiv_def
  by (subst fl64_eval_neg [where n = 6]) (simp_all add: round_even_def)

lemma dmul_03_01: "dmul (5404319552844595 / 18014398509481984) (3602879701896397 / 36028797018963968) = 1080863910568919 / 36028797018963968"
  unfolding dadd_def dsub_def dmul_def ddiv_def
  by (subst fl64_eval_neg [where n = 6]) (simp_all add: round_even_def)

lemma ddiv_003_01: "ddiv (1080863910568919 / 36028797018963968) (3602879701896397 / 36028797018963968) = 5404319552844595 / 18014398509481984"
  unfolding dadd_def dsub_def dmul_def ddiv_def
  by (subst fl64_eval_neg [where n = 2]) (simp_all add: round_even_def)

lemma dsub_03_0: "dsub (5404319552844595 / 18014398509481984) 0 = 5404319552844595 / 18014398509481984"
  unfolding dadd_def dsub_def dmul_def ddiv_def
  by (subst fl64_eval_neg [where n = 2]) (simp_all add: round_even_def)

lemma dsub_03_003: "dsub (5404319552844595 / 18014398509481984) (1080863910568919 / 36028797018963968) = 607985949695017 / 2251799813685248"
  unfolding dadd_def dsub_def dmul_def ddiv_def
  by (subst fl64_eval_neg [where n = 2]) (simp_all add: round_even_def)

lemma dadd_0_003: "dadd 0 (1080863910568919 / 36028797018963968) = 1080863910568919 / 36028797018963968"
  unfolding dadd_def dsub_def dmul_def ddiv_def
  by (subst fl64_eval_neg [where n = 6]) (simp_all add: round_even_def)

lemma dadd_027_003: "dadd (607985949695017 / 2251799813685248) (1080863910568919 / 36028797018963968) = 1351079888211149 / 4503599627370496"
  unfolding dadd_def dsub_def dmul_def ddiv_def
  by (subst fl64_eval_neg [where n = 2]) (simp_all add: round_even_def)

lemma dsub_same [simp]: "dsub x x = 0"
  by (simp add: dsub_def)

lemmas decimal_evals =
  fl64_3_10 fl64_1_10 dmul_01_03 dmul_03_01 ddiv_003_01 dsub_03_0 dsub_03_003 dadd_0_003
  dadd_027_003

lemma int_evals:
  "dmul 100 1 = 100" "dmul 1 100 = 100" "ddiv 100 100 = 1" "dsub 200 0 = 200"
  "dsub 200 100 = 100" "dadd 0 100 = 100" "dadd 100 100 = 200"
  by (simp_all add: dmul_def ddiv_def dsub_def dadd_def fl64_numeral)

lemmas sticky_run_defs =
  updateStickyOrder_def getTicker_def syncOrderBook_def getOrderBook_def stickyNewPrice_def
  cancelOrder_def createOrder_def placeOrder_def getBalance_Some stickyBuyOrder_def
  stickyExchange_def acceptingRemote_def rejectingRemote_def newExchange_def openLimitOrder_def
  flatTicker_def remainingAutoCancel_def getMinDealAmount_def stickyReplacement_def
  truthy_bool_def truthy_num_def quoteCurrencyOf_def baseCurrencyOf_def js_index_def
  currencyOf_def ensureBalance_def balanceOf_def reserveOf_def Balance_free_def
  private_reserve_def private_release_def dmul_def ddiv_def dsub_def dadd_def fl64_numeral
  Let_def

lemma placeOrder_limit_amount:
  assumes "opt_type options = Limit"
    and "quoteCurrencyOf (opt_market options) = Some q"
    and "baseCurrencyOf (opt_market options) = Some b"
    and "placedId newId (opt_market options) Limit (opt_side options) (opt_amount options) prc s
           = Some rid"
    and "getBalance (Some q) s = (Inr quoteBalance, s1)"
    and "getBalance (Some b) s1 = (Inr baseBalance, s2)"
  shows "openOrders (snd (placeOrder now newId options prc stk fp pl s)) =
           AList.update rid
             \<lparr> order_id = rid, timestamp = now, timestampClosed = None, status = ''open'',
               market = opt_market options, order_type = Limit, side = opt_side options,
               price = prc,
               amount = (if opt_side options = Buy
                         then ddiv (min (dmul prc (opt_amount options))
                                        (Balance_free quoteBalance)) prc
                         else min (Balance_free baseBalance) (opt_amount options)),
               fee = dmul (opt_amount options) (state_fee s), filled = 0,
               remaining = opt_amount options, autoCancel = opt_autoCancel options,
               autoCancelAtFillPercentage = fp,
               autoCancelAtPriceLevel = Some pl,
               sticky = Some stk \<rparr>
             (openOrders s)"
proof -
  have f: "s1 = ensureBalance (currencyOf q) s" "s2 = ensureBalance (currencyOf b) s1"
    using assms(5,6) by (simp_all add: getBalance_Some)
  have fr: "ccxtExchange s2 = ccxtExchange s" "simulation s2 = simulation s"
    "dryRun s2 = dryRun s" "openOrders s2 = openOrders s" "state_fee s2 = state_fee s"
    by (simp_all add: f)
  show ?thesis
    using assms(1-4)
    by (cases "opt_side options"; cases "ccxtExchange s"; cases "simulation s"; cases "dryRun s")
      (simp_all add: placeOrder_def assms(5,6) Let_def placedId_def fr)
qed

lemma stickyNewPrice_rule:
  "stickyNewPrice ticker book ord =
     (case side ord of
        Buy \<Rightarrow> if 1 < length (bids book) \<and> snd (bids book ! 0) \<le> remaining ord
                  \<and> price ord = fst (bids book ! 0)
               then fst (bids book ! 1) else ticker_bid ticker
      | Sell \<Rightarrow> if 1 < length (asks book) \<and> snd (asks book ! 0) \<le> remaining ord
                  \<and> price ord = fst (asks book ! 0)
                then fst (asks book ! 1) else ticker_ask ticker)"
  by (cases "side ord") (simp_all add: stickyNewPrice_def Let_def)

lemmas exchange_defs =
  createOrder_def placeOrder_def cancelOrder_def getTicker_def simulatedExchange_def newExchange_def
  limitOrder_def truthy_num_def getBalance_Some quoteCurrencyOf_def baseCurrencyOf_def js_index_def
  currencyOf_def ensureBalance_def balanceOf_def reserveOf_def Balance_free_def
  private_reserve_def private_release_def Let_def

section \<open>The claims on the exchange state mirror\<close>

subsection \<open>Balance conservation\<close>

text \<open>
  C1, as stated: the sum \<open>free + used\<close> is exactly the same after a pair of \<open>createOrder\<close>
  and \<open>cancelOrder\<close> as before it. The balance fields are doubles, and the subtraction
  and the addition that move the amount are rounded. With a quote balance of
  \<open>{free: 0.3, used: 0}\<close>, a limit buy of amount 0.3 at price 0.1 leaves
  \<open>{free: 0.27, used: 0.03}\<close>, and cancelling the order leaves
  \<open>{free: 0.30000000000000004, used: 0}\<close>: the sum has grown by \<open>2 ^ -54\<close>.
\<close>

theorem limit_order_pair_changes_total:
  "balances (snd (createOrder 1 ''a1'' (limitOrder ''BTC/USDT'' Buy (fl64 (3 / 10)) (fl64 (1 / 10)))
       (simulatedExchange ''BTC/USDT'' (flatTicker (fl64 (1 / 10))) ''USDT''
          \<lparr> free = fl64 (3 / 10), used = 0 \<rparr>))) ''USDT''
     = Some \<lparr> free = 607985949695017 / 2 ^ 51, used = 1080863910568919 / 2 ^ 55 \<rparr>
   \<and> map_of (openOrders (snd (createOrder 1 ''a1''
         (limitOrder ''BTC/USDT'' Buy (fl64 (3 / 10)) (fl64 (1 / 10)))
         (simulatedExchange ''BTC/USDT'' (flatTicker (fl64 (1 / 10))) ''USDT''
            \<lparr> free = fl64 (3 / 10), used = 0 \<rparr>)))) ''a1''
     = Some ((openLimitOrder ''a1'' ''BTC/USDT'' Buy (fl64 (1 / 10)) (fl64 (3 / 10)) 1)
               \<lparr>fee := dmul (fl64 (3 / 10)) (fl64 (1 / 10000))\<rparr>)
   \<and> balances (runCalls
         [CreateOrder 1 ''a1'' (limitOrder ''BTC/USDT'' Buy (fl64 (3 / 10)) (fl64 (1 / 10))),
          CancelOrder 2 ((openLimitOrder ''a1'' ''BTC/USDT'' Buy (fl64 (1 / 10)) (fl64 (3 / 10)) 1)
                           \<lparr>fee := dmul (fl64 (3 / 10)) (fl64 (1 / 10000))\<rparr>)]
         (simulatedExchange ''BTC/USDT'' (flatTicker (fl64 (1 / 10))) ''USDT''
            \<lparr> free = fl64 (3 / 10), used = 0 \<rparr>)) ''USDT''
     = Some \<lparr> free = 1351079888211149 / 2 ^ 52, used = 0 \<rparr>
   \<and> totalOf (runCalls
         [CreateOrder 1 ''a1'' (limitOrder ''BTC/USDT'' Buy (fl64 (3 / 10)) (fl64 (1 / 10))),
          CancelOrder 2 ((openLimitOrder ''a1'' ''BTC/USDT'' Buy (fl64 (1 / 10)) (fl64 (3 / 10)) 1)
                           \<lparr>fee := dmul (fl64 (3 / 10)) (fl64 (1 / 10000))\<rparr>)]
         (simulatedExchange ''BTC/USDT'' (flatTicker (fl64 (1 / 10))) ''USDT''
            \<lparr> free = fl64 (3 / 10), used = 0 \<rparr>)) ''USDT''
     \<noteq> totalOf (simulatedExchange ''BTC/USDT'' (flatTicker (fl64 (1 / 10))) ''USDT''
                  \<lparr> free = fl64 (3 / 10), used = 0 \<rparr>) ''USDT''"
  by (simp add: runCalls_def exchange_defs flatTicker_def openLimitOrder_def totalOf_def
      decimal_evals)

text \<open>
  C1, amended: a \<open>createOrder\<close> call for a limit order or a \<open>cancelOrder\<close> call changes the
  sum \<open>free + used\<close> of a currency by no more than the rounding errors of the subtraction
  and the addition in \<open>_reserve\<close> or \<open>_release\<close>, each at most half a unit in the last
  place of its result: the sum after the call differs from the sum before it by at most
  \<open>2 ^ -53 * (\<bar>free\<bar> + \<bar>used\<bar>) + 2 ^ -1074\<close>, for the balance after the call, and over a
  sequence of such calls the bounds add up; this holds in simulation and outside it, and
  for every order handed to \<open>cancelOrder\<close>. In the scenario all operations are exact: a
  limit buy of amount 1 at price 100 on a quote balance of \<open>{free: 200, used: 0}\<close> leaves
  \<open>{free: 100, used: 100}\<close> and an open order of amount 1 and price 100, and cancelling
  that order restores \<open>{free: 200, used: 0}\<close>.
\<close>

theorem limit_orders_change_total_by_rounding:
  assumes "list_all isLimitCall calls"
  shows "\<bar>totalOf (runCalls calls s) c - totalOf s c\<bar> \<le> roundoffs calls s c
    \<and> balances (snd (createOrder now newId (limitOrder ''BTC/USDT'' Buy 1 100)
          (simulatedExchange ''BTC/USDT'' t ''USDT'' \<lparr> free = 200, used = 0 \<rparr>))) ''USDT''
        = Some \<lparr> free = 100, used = 100 \<rparr>
    \<and> (case map_of (openOrders (snd (createOrder now newId (limitOrder ''BTC/USDT'' Buy 1 100)
          (simulatedExchange ''BTC/USDT'' t ''USDT'' \<lparr> free = 200, used = 0 \<rparr>)))) newId of
          None \<Rightarrow> False
        | Some ord \<Rightarrow> amount ord = 1 \<and> price ord = 100 \<and> status ord = ''open''
            \<and> balances (snd (cancelOrder later ord
                 (snd (createOrder now newId (limitOrder ''BTC/USDT'' Buy 1 100)
                   (simulatedExchange ''BTC/USDT'' t ''USDT'' \<lparr> free = 200, used = 0 \<rparr>))))) ''USDT''
               = Some \<lparr> free = 200, used = 0 \<rparr>)"
proof (intro conjI)
  show "\<bar>totalOf (runCalls calls s) c - totalOf s c\<bar> \<le> roundoffs calls s c"
    using assms by (rule totalOf_runCalls)
next
  show "balances (snd (createOrder now newId (limitOrder ''BTC/USDT'' Buy 1 100)
          (simulatedExchange ''BTC/USDT'' t ''USDT'' \<lparr> free = 200, used = 0 \<rparr>))) ''USDT''
        = Some \<lparr> free = 100, used = 100 \<rparr>"
    by (simp add: exchange_defs int_evals)
next
  show "(case map_of (openOrders (snd (createOrder now newId (limitOrder ''BTC/USDT'' Buy 1 100)
          (simulatedExchange ''BTC/USDT'' t ''USDT'' \<lparr> free = 200, used = 0 \<rparr>)))) newId of
          None \<Rightarrow> False
        | Some ord \<Rightarrow> amount ord = 1 \<and> price ord = 100 \<and> status ord = ''open''
            \<and> balances (snd (cancelOrder later ord
                 (snd (createOrder now newId (limitOrder ''BTC/USDT'' Buy 1 100)
                   (simulatedExchange ''BTC/USDT'' t ''USDT'' \<lparr> free = 200, used = 0 \<rparr>))))) ''USDT''
               = Some \<lparr> free = 200, used = 0 \<rparr>)"
    by (simp add: exchange_defs int_evals)
qed

theorem limit_orders_change_total_by_rounding_witness:
  "list_all isLimitCall
     [CreateOrder 1 ''a1'' (limitOrder ''BTC/USDT'' Buy (fl64 (3 / 10)) (fl64 (1 / 10))),
      CancelOrder 2 ((openLimitOrder ''a1'' ''BTC/USDT'' Buy (fl64 (1 / 10)) (fl64 (3 / 10)) 1)
                       \<lparr>fee := dmul (fl64 (3 / 10)) (fl64 (1 / 10000))\<rparr>)]
   \<and> \<bar>totalOf (runCalls
         [CreateOrder 1 ''a1'' (limitOrder ''BTC/USDT'' Buy (fl64 (3 / 10)) (fl64 (1 / 10))),
          CancelOrder 2 ((openLimitOrder ''a1'' ''BTC/USDT'' Buy (fl64 (1 / 10)) (fl64 (3 / 10)) 1)
                           \<lparr>fee := dmul (fl64 (3 / 10)) (fl64 (1 / 10000))\<rparr>)]
         (simulatedExchange ''BTC/USDT'' (flatTicker (fl64 (1 / 10))) ''USDT''
            \<lparr> free = fl64 (3 / 10), used = 0 \<rparr>)) ''USDT''
       - totalOf (simulatedExchange ''BTC/USDT'' (flatTicker (fl64 (1 / 10))) ''USDT''
            \<lparr> free = fl64 (3 / 10), used = 0 \<rparr>) ''USDT''\<bar>
     \<le> roundoffs
         [CreateOrder 1 ''a1'' (limitOrder ''BTC/USDT'' Buy (fl64 (3 / 10)) (fl64 (1 / 10))),
          CancelOrder 2 ((openLimitOrder ''a1'' ''BTC/USDT'' Buy (fl64 (1 / 10)) (fl64 (3 / 10)) 1)
                           \<lparr>fee := dmul (fl64 (3 / 10)) (fl64 (1 / 10000))\<rparr>)]
         (simulatedExchange ''BTC/USDT'' (flatTicker (fl64 (1 / 10))) ''USDT''
            \<lparr> free = fl64 (3 / 10), used = 0 \<rparr>) ''USDT''"
proof -
  have l: "list_all isLimitCall
     [CreateOrder 1 ''a1'' (limitOrder ''BTC/USDT'' Buy (fl64 (3 / 10)) (fl64 (1 / 10))),
      CancelOrder 2 ((openLimitOrder ''a1'' ''BTC/USDT'' Buy (fl64 (1 / 10)) (fl64 (3 / 10)) 1)
                       \<lparr>fee := dmul (fl64 (3 / 10)) (fl64 (1 / 10000))\<rparr>)]"
    by (simp add: limitOrder_def)
  from limit_orders_change_total_by_rounding [OF l, of
      "simulatedExchange ''BTC/USDT'' (flatTicker (fl64 (1 / 10))) ''USDT''
         \<lparr> free = fl64 (3 / 10), used = 0 \<rparr>" "''USDT''"] l
  show ?thesis by blast
qed

subsection \<open>cancelOrder\<close>

text \<open>
  C4: for an order whose market names a quote currency (\<open>BASE/QUOTE\<close>), \<open>cancelOrder\<close>
  throws exactly when the exchange is in lockdown or the order's status is not
  \<open>"open"\<close>; when it throws, the state is unchanged; on success in simulation the order
  is in the cancelled record under its identifier, no longer in the open record, and the
  closed record receives it, with \<open>timestampClosed\<close> set to the current time, if and only
  if \<open>filled > 0\<close>.
\<close>

theorem cancelOrder_contract:
  assumes "quoteCurrencyOf (market ord) = Some q"
  shows "((\<exists>e. fst (cancelOrder now ord s) = Inl e) \<longleftrightarrow> (lockdown s \<or> status ord \<noteq> ''open''))
    \<and> ((\<exists>e. fst (cancelOrder now ord s) = Inl e) \<longrightarrow> snd (cancelOrder now ord s) = s)
    \<and> (simulation s \<and> \<not> lockdown s \<and> status ord = ''open'' \<longrightarrow>
          map_of (cancelledOrders (snd (cancelOrder now ord s))) (order_id ord) =
            Some (if filled ord > 0 then ord\<lparr>timestampClosed := Some now\<rparr> else ord)
        \<and> map_of (openOrders (snd (cancelOrder now ord s))) (order_id ord) = None
        \<and> closedOrders (snd (cancelOrder now ord s)) =
            (if filled ord > 0
             then AList.update (order_id ord) (ord\<lparr>timestampClosed := Some now\<rparr>) (closedOrders s)
             else closedOrders s))"
proof (intro conjI impI)
  show "(\<exists>e. fst (cancelOrder now ord s) = Inl e) \<longleftrightarrow> (lockdown s \<or> status ord \<noteq> ''open'')"
    using assms by (rule cancelOrder_throws_iff)
next
  assume "\<exists>e. fst (cancelOrder now ord s) = Inl e"
  then show "snd (cancelOrder now ord s) = s"
    by (auto intro: cancelOrder_throw_unchanged)
next
  assume a: "simulation s \<and> \<not> lockdown s \<and> status ord = ''open''"
  note c = cancelOrder_simulation [OF assms, of s now]
  from a show "map_of (cancelledOrders (snd (cancelOrder now ord s))) (order_id ord) =
            Some (if filled ord > 0 then ord\<lparr>timestampClosed := Some now\<rparr> else ord)"
    by (simp add: c(1) AList.update_conv')
  from a show "map_of (openOrders (snd (cancelOrder now ord s))) (order_id ord) = None"
    by (simp add: c(2) AList.delete_conv')
  from a show "closedOrders (snd (cancelOrder now ord s)) =
            (if filled ord > 0
             then AList.update (order_id ord) (ord\<lparr>timestampClosed := Some now\<rparr>) (closedOrders s)
             else closedOrders s)"
    by (simp add: c(3))
qed

theorem cancelOrder_contract_witness:
  "quoteCurrencyOf (market ((openLimitOrder ''a1'' ''BTC/USDT'' Buy 100 1 0)\<lparr>filled := 1 / 2\<rparr>))
     = Some ''USDT''
   \<and> fst (cancelOrder 5 ((openLimitOrder ''a1'' ''BTC/USDT'' Buy 100 1 0)\<lparr>filled := 1 / 2\<rparr>)
        ((newExchange None)\<lparr>openOrders :=
           [(''a1'', (openLimitOrder ''a1'' ''BTC/USDT'' Buy 100 1 0)\<lparr>filled := 1 / 2\<rparr>)]\<rparr>))
       = Inr ()
   \<and> map_of (openOrders (snd (cancelOrder 5
        ((openLimitOrder ''a1'' ''BTC/USDT'' Buy 100 1 0)\<lparr>filled := 1 / 2\<rparr>)
        ((newExchange None)\<lparr>openOrders :=
           [(''a1'', (openLimitOrder ''a1'' ''BTC/USDT'' Buy 100 1 0)\<lparr>filled := 1 / 2\<rparr>)]\<rparr>))))
        ''a1'' = None
   \<and> closedOrders (snd (cancelOrder 5
        ((openLimitOrder ''a1'' ''BTC/USDT'' Buy 100 1 0)\<lparr>filled := 1 / 2\<rparr>)
        ((newExchange None)\<lparr>openOrders :=
           [(''a1'', (openLimitOrder ''a1'' ''BTC/USDT'' Buy 100 1 0)\<lparr>filled := 1 / 2\<rparr>)]\<rparr>)))
       = [(''a1'', (openLimitOrder ''a1'' ''BTC/USDT'' Buy 100 1 0)
                     \<lparr>filled := 1 / 2, timestampClosed := Some 5\<rparr>)]"
proof -
  let ?ord = "(openLimitOrder ''a1'' ''BTC/USDT'' Buy 100 1 0)\<lparr>filled := 1 / 2\<rparr>"
  let ?s = "(newExchange None)\<lparr>openOrders := [(''a1'', ?ord)]\<rparr>"
  have q: "quoteCurrencyOf (market ?ord) = Some ''USDT''"
    by (simp add: quoteCurrencyOf_def js_index_def openLimitOrder_def)
  have h: "simulation ?s \<and> \<not> lockdown ?s \<and> status ?ord = ''open''"
    by (simp add: newExchange_def openLimitOrder_def)
  have r: "fst (cancelOrder 5 ?ord ?s) \<noteq> Inl e" for e
    using cancelOrder_contract [OF q, of 5 ?s] h by auto
  have f: "fst (cancelOrder 5 ?ord ?s) = Inr ()"
    using r by (cases "fst (cancelOrder 5 ?ord ?s)") auto
  have i: "order_id ?ord = ''a1''" "filled ?ord > 0" "closedOrders ?s = []"
    by (simp_all add: openLimitOrder_def newExchange_def)
  from cancelOrder_contract [OF q, of 5 ?s] h q f i show ?thesis
    by simp
qed

subsection \<open>purgeOrderList\<close>

text \<open>
  C5, as stated: \<open>purgeOrderList\<close> removes exactly the closed and cancelled orders whose
  closure lies more than seven days before the current time. The code compares the
  creation \<open>timestamp\<close>: an order created eight days ago and closed one day ago is
  removed.
\<close>

theorem purgeOrderList_removes_recently_closed:
  "map_of (closedOrders (purgeOrderList 691200000 None
      ((newExchange None)\<lparr>closedOrders :=
          [(''a1'', (openLimitOrder ''a1'' ''BTC/USDT'' Buy 100 1 0)
                     \<lparr>status := ''closed'', timestampClosed := Some 604800000\<rparr>)]\<rparr>))) ''a1'' = None
   \<and> \<not> (604800000 + purgeAge < (691200000::real))"
  by (simp add: purgeOrderList_def newExchange_def openLimitOrder_def otherMarket_def purgeAge_def)

text \<open>
  C5, amended: \<open>purgeOrderList\<close> removes from the closed record exactly the orders of
  the given market (of every market when none is given) whose creation \<open>timestamp\<close> lies
  more than seven days before the current time, and from the cancelled record exactly
  the orders, of any market, whose creation \<open>timestamp\<close> does; every other closed or
  cancelled order stays as it is.
\<close>

theorem purgeOrderList_by_creation_time:
  "map_of (closedOrders (purgeOrderList now m s)) x =
     (case map_of (closedOrders s) x of
        None \<Rightarrow> None
      | Some ord \<Rightarrow> if \<not> otherMarket m ord \<and> timestamp ord + purgeAge < now
                    then None else Some ord)
   \<and> map_of (cancelledOrders (purgeOrderList now m s)) x =
     (case map_of (cancelledOrders s) x of
        None \<Rightarrow> None
      | Some ord \<Rightarrow> if timestamp ord + purgeAge < now then None else Some ord)
   \<and> purgeAge = 7 * 24 * 60 * 60 * 1000"
  by (auto simp: purgeOrderList_def Let_def map_of_purgeClosed map_of_purgeCancelled purgeAge_def
      dest: map_of_Some_key split: option.splits)

subsection \<open>syncTickers\<close>

text \<open>
  C6: a successful \<open>syncTickers\<close> merges the fetched tickers into the local ones, so a
  local ticker that the fetched snapshot lacks is unchanged. The code assigns the
  snapshot to the local map before it merges: with local tickers for \<open>ETH/BTC\<close> and
  \<open>LTC/BTC\<close> and a snapshot for \<open>ETH/BTC\<close> only, the call succeeds and the ticker of
  \<open>LTC/BTC\<close> is gone.
\<close>

theorem syncTickers_drops_local_ticker:
  "fst (syncTickers (Some [''ETH/BTC''])
     ((newExchange (Some (rejectingRemote
         \<lparr>remote_fetchTickers := (\<lambda>ms. Some [''ETH/BTC'' \<mapsto> flatTicker 2])\<rparr>)))
       \<lparr>tickers := [''ETH/BTC'' \<mapsto> flatTicker 1, ''LTC/BTC'' \<mapsto> flatTicker 3]\<rparr>)) = True
   \<and> tickers (snd (syncTickers (Some [''ETH/BTC''])
     ((newExchange (Some (rejectingRemote
         \<lparr>remote_fetchTickers := (\<lambda>ms. Some [''ETH/BTC'' \<mapsto> flatTicker 2])\<rparr>)))
       \<lparr>tickers := [''ETH/BTC'' \<mapsto> flatTicker 1, ''LTC/BTC'' \<mapsto> flatTicker 3]\<rparr>)))
       ''LTC/BTC'' = None"
  by (simp add: syncTickers_def newExchange_def rejectingRemote_def merge_tickers_def)

subsection \<open>Fulfilment of limit orders\<close>

text \<open>
  C2: a filled order becomes closed with \<open>filled = amount\<close>, \<open>remaining = 0\<close> and
  \<open>timestampClosed\<close> set. For a sell order at price 100 and a later candle with high 101
  and volume 10 the code closes the order and leaves \<open>timestampClosed\<close> unset, while the
  buy branch, on the same candle, sets it to the current time.
\<close>

theorem checkFullfillOrder_sell_leaves_timestampClosed_unset:
  "map_of (closedOrders (snd (checkFullfillOrder 20 (openLimitOrder ''s1'' ''BTC/USDT'' Sell 100 1 10)
      ((newExchange (Some (rejectingRemote
          \<lparr>remote_retrieveCandles := (\<lambda>m. Some (Some [candle 11 99 101 10]))\<rparr>)))
        \<lparr>openOrders := [(''s1'', openLimitOrder ''s1'' ''BTC/USDT'' Sell 100 1 10)],
         balances := [''BTC'' \<mapsto> \<lparr> free = 0, used = 1 \<rparr>]\<rparr>)))) ''s1''
   = Some ((openLimitOrder ''s1'' ''BTC/USDT'' Sell 100 1 10)
             \<lparr>status := ''closed'', filled := 1, remaining := 0, timestampClosed := None\<rparr>)
   \<and> map_of (closedOrders (snd (checkFullfillOrder 20 (openLimitOrder ''b1'' ''BTC/USDT'' Buy 100 1 10)
      ((newExchange (Some (rejectingRemote
          \<lparr>remote_retrieveCandles := (\<lambda>m. Some (Some [candle 11 99 101 10]))\<rparr>)))
        \<lparr>openOrders := [(''b1'', openLimitOrder ''b1'' ''BTC/USDT'' Buy 100 1 10)],
         balances := [''USDT'' \<mapsto> \<lparr> free = 0, used = 100 \<rparr>]\<rparr>)))) ''b1''
   = Some ((openLimitOrder ''b1'' ''BTC/USDT'' Buy 100 1 10)
             \<lparr>status := ''closed'', filled := 1, remaining := 0, timestampClosed := Some 20\<rparr>)"
  by (simp add: checkFullfillOrder_def retrieveLatestCandle_def newExchange_def rejectingRemote_def
      openLimitOrder_def candle_def getBalance_Some quoteCurrencyOf_def baseCurrencyOf_def
      js_index_def)

subsection \<open>Sticky orders\<close>

text \<open>
  C3, as stated: when the target price differs from the order's price the order is
  cancelled, and a replacement is created if the remaining amount and the remaining
  auto-cancel time allow it. \<open>cancelOrder\<close> does not throw when the remote exchange
  rejects the cancellation: it logs the error and returns, and the sticky update goes on.
  On a live exchange whose remote rejects the cancellation, the sticky buy order \<open>a1\<close> at
  100, sole best bid of the book, is still open after the update, and its replacement
  \<open>r7\<close> at 99 is open beside it. And when the remote exchange rejects the new order,
  \<open>createOrder\<close> returns without storing it: the order is cancelled and no replacement
  exists.
\<close>

theorem updateStickyOrder_rejected_cancel_leaves_order_open:
  "price stickyBuyOrder = 100
   \<and> map_of (openOrders (snd (updateStickyOrder 10 ''a2'' stickyBuyOrder
         (stickyExchange\<lparr>ccxtExchange :=
            Some (acceptingRemote\<lparr>remote_cancelOrder := (\<lambda>ord. False)\<rparr>)\<rparr>)))) ''a1''
       = Some stickyBuyOrder
   \<and> (\<exists>r. map_of (openOrders (snd (updateStickyOrder 10 ''a2'' stickyBuyOrder
              (stickyExchange\<lparr>ccxtExchange :=
                 Some (acceptingRemote\<lparr>remote_cancelOrder := (\<lambda>ord. False)\<rparr>)\<rparr>)))) ''r7''
            = Some r
          \<and> side r = Buy \<and> price r = 99 \<and> remaining r = 1 \<and> sticky r = Some True)
   \<and> openOrders (snd (updateStickyOrder 10 ''a2'' stickyBuyOrder
         (stickyExchange\<lparr>ccxtExchange :=
            Some (acceptingRemote\<lparr>remote_createOrder := (\<lambda>m typ sd amt prc. None)\<rparr>)\<rparr>)))
       = []"
  by (simp add: sticky_run_defs)

text \<open>
  C3, amended: for a sticky open order of a market \<open>BASE/QUOTE\<close> with a ticker, lockdown
  being off, the target price is taken from the order book as it is after
  \<open>syncOrderBook\<close>: the price of its second bid when the book has more than one bid and
  the order is the sole best bid (its remaining amount is at least the amount of the
  first bid and its price is the price of the first bid), and the bid of the ticker
  otherwise; for a sell order the same with the asks and the ask of the ticker. When the
  target is the order's price, nothing but the order book of the state has changed.
  Otherwise \<open>cancelOrder\<close> is called and the order is deleted from the cancelled record;
  then, if the remaining amount is at least the minimum deal amount and the remaining
  auto-cancel time, when the order has one, is positive, \<open>createOrder\<close> is called for a
  sticky limit order of the same side, with the remaining amount, the target price and
  the remaining auto-cancel time. The order is out of the open and the cancelled record
  when the cancellation is carried out, which it is in simulation, in a dry run, and
  when the remote exchange accepts it. The replacement is in the open record when
  \<open>createOrder\<close> accepts it (a positive amount and price, an auto-cancel time where the
  exchange demands one) and, on a live exchange, the remote exchange returns an
  identifier for it; its \<open>remaining\<close> field is the remaining amount, and its \<open>amount\<close>
  field is that amount cut down to what the free balance pays for.
\<close>

theorem updateStickyOrder_cancel_and_replace:
  assumes "truthy_bool (sticky ord)"
    and "status ord = ''open''"
    and "\<not> lockdown s"
    and "tickers s (market ord) = Some ticker"
    and "quoteCurrencyOf (market ord) = Some q"
    and "baseCurrencyOf (market ord) = Some b"
    and "s1 = snd (syncOrderBook [market ord] s)"
    and "book = getOrderBook (market ord) s1"
    and "target =
           (case side ord of
              Buy \<Rightarrow> if 1 < length (bids book) \<and> snd (bids book ! 0) \<le> remaining ord
                        \<and> price ord = fst (bids book ! 0)
                     then fst (bids book ! 1) else ticker_bid ticker
            | Sell \<Rightarrow> if 1 < length (asks book) \<and> snd (asks book ! 0) \<le> remaining ord
                        \<and> price ord = fst (asks book ! 0)
                      then fst (asks book ! 1) else ticker_ask ticker)"
    and "budget = remainingAutoCancel now ord"
    and "replacing = ((\<not> truthy_num (autoCancel ord) \<or> (\<exists>n. budget = Some n \<and> 0 < n))
                      \<and> getMinDealAmount (market ord) s \<le> remaining ord)"
    and "replacement =
           \<lparr> opt_market = market ord, opt_type = Limit, opt_side = side ord,
             opt_amount = remaining ord, opt_price = Some target, opt_autoCancel = budget,
             opt_autoCancelAtFillPercentage = Some (autoCancelAtFillPercentage ord),
             opt_autoCancelAtPriceLevel = None, opt_sticky = Some True \<rparr>"
    and "s3 = (snd (cancelOrder now ord s1))
                \<lparr>cancelledOrders :=
                   AList.delete (order_id ord) (cancelledOrders (snd (cancelOrder now ord s1)))\<rparr>"
    and "s' = snd (updateStickyOrder now newId ord s)"
  shows "(price ord = target \<longrightarrow>
            updateStickyOrder now newId ord s = (Inr (), s\<lparr>orderBooks := orderBooks s1\<rparr>))
    \<and> (price ord \<noteq> target \<longrightarrow>
            s' = (if replacing then snd (createOrder now newId replacement s3) else s3))
    \<and> (price ord \<noteq> target \<and> cancelAccepted ord s \<longrightarrow>
            openOrders s3 = AList.delete (order_id ord) (openOrders s)
          \<and> cancelledOrders s3 = AList.delete (order_id ord) (cancelledOrders s))
    \<and> (price ord \<noteq> target \<and> replacing
          \<and> (truthy_num budget \<or> \<not> forceAutoCancel s) \<and> 0 < remaining ord \<and> 0 < target
          \<and> placedId newId (market ord) Limit (side ord) (remaining ord) target s = Some rid
          \<and> getBalance (Some q) s3 = (Inr quoteBalance, sq)
          \<and> getBalance (Some b) sq = (Inr baseBalance, sb) \<longrightarrow>
            openOrders s' =
              AList.update rid
                \<lparr> order_id = rid, timestamp = now, timestampClosed = None, status = ''open'',
                  market = market ord, order_type = Limit, side = side ord, price = target,
                  amount = (if side ord = Buy
                            then ddiv (min (dmul target (remaining ord))
                                           (Balance_free quoteBalance)) target
                            else min (Balance_free baseBalance) (remaining ord)),
                  fee = dmul (remaining ord) (state_fee s), filled = 0,
                  remaining = remaining ord, autoCancel = budget,
                  autoCancelAtFillPercentage = autoCancelAtFillPercentage ord,
                  autoCancelAtPriceLevel = Some (if side ord = Buy then Infinity else Finite 0),
                  sticky = Some True \<rparr>
                (openOrders s3))"
proof -
  have tg: "target = stickyNewPrice ticker (getOrderBook (market ord) s1) ord"
    unfolding assms(9) assms(8) by (simp only: stickyNewPrice_rule)
  have rp: "replacement = stickyReplacement ord target (remainingAutoCancel now ord)"
    by (simp add: assms(12) assms(10) stickyReplacement_def)
  have rc: "replacing =
              ((\<not> truthy_num (autoCancel ord)
                \<or> (case remainingAutoCancel now ord of None \<Rightarrow> False | Some n \<Rightarrow> n > 0))
               \<and> remaining ord \<ge> getMinDealAmount (market ord) s)"
    unfolding assms(11) assms(10) by (cases "remainingAutoCancel now ord") simp_all
  have f3: "tickers s3 = tickers s" "lockdown s3 = lockdown s"
    "forceAutoCancel s3 = forceAutoCancel s" "state_fee s3 = state_fee s"
    "ccxtExchange s3 = ccxtExchange s" "simulation s3 = simulation s" "dryRun s3 = dryRun s"
    by (simp_all add: assms(13) assms(7))
  have p1: "price ord = target \<longrightarrow>
            updateStickyOrder now newId ord s = (Inr (), s\<lparr>orderBooks := orderBooks s1\<rparr>)"
    using updateStickyOrder_same_price [OF assms(1) assms(4) assms(7)] tg by simp
  have steps: "s' = (if replacing then snd (createOrder now newId replacement s3) else s3)"
    if a: "price ord \<noteq> target"
    unfolding assms(14) rp rc
    by (rule updateStickyOrder_steps [OF assms(1-5) assms(7) tg a refl assms(13)])
  have p3: "price ord \<noteq> target \<and> cancelAccepted ord s \<longrightarrow>
            openOrders s3 = AList.delete (order_id ord) (openOrders s)
          \<and> cancelledOrders s3 = AList.delete (order_id ord) (cancelledOrders s)"
  proof
    assume a: "price ord \<noteq> target \<and> cancelAccepted ord s"
    have l1: "\<not> lockdown s1" using assms(3) by (simp add: assms(7))
    have a1: "cancelAccepted ord s1" using a by (simp add: cancelAccepted_def assms(7))
    note c = cancelOrder_accepted [OF assms(5) a1 l1 assms(2), of now]
    have o1: "openOrders s1 = openOrders s" "cancelledOrders s1 = cancelledOrders s"
      by (simp_all add: assms(7))
    show "openOrders s3 = AList.delete (order_id ord) (openOrders s)
          \<and> cancelledOrders s3 = AList.delete (order_id ord) (cancelledOrders s)"
      by (simp add: assms(13) c o1 AList.delete_update_same)
  qed
  have p4: "price ord \<noteq> target \<and> replacing
          \<and> (truthy_num budget \<or> \<not> forceAutoCancel s) \<and> 0 < remaining ord \<and> 0 < target
          \<and> placedId newId (market ord) Limit (side ord) (remaining ord) target s = Some rid
          \<and> getBalance (Some q) s3 = (Inr quoteBalance, sq)
          \<and> getBalance (Some b) sq = (Inr baseBalance, sb) \<longrightarrow>
            openOrders s' =
              AList.update rid
                \<lparr> order_id = rid, timestamp = now, timestampClosed = None, status = ''open'',
                  market = market ord, order_type = Limit, side = side ord, price = target,
                  amount = (if side ord = Buy
                            then ddiv (min (dmul target (remaining ord))
                                           (Balance_free quoteBalance)) target
                            else min (Balance_free baseBalance) (remaining ord)),
                  fee = dmul (remaining ord) (state_fee s), filled = 0,
                  remaining = remaining ord, autoCancel = budget,
                  autoCancelAtFillPercentage = autoCancelAtFillPercentage ord,
                  autoCancelAtPriceLevel = Some (if side ord = Buy then Infinity else Finite 0),
                  sticky = Some True \<rparr>
                (openOrders s3)"
  proof
    assume a: "price ord \<noteq> target \<and> replacing
          \<and> (truthy_num budget \<or> \<not> forceAutoCancel s) \<and> 0 < remaining ord \<and> 0 < target
          \<and> placedId newId (market ord) Limit (side ord) (remaining ord) target s = Some rid
          \<and> getBalance (Some q) s3 = (Inr quoteBalance, sq)
          \<and> getBalance (Some b) sq = (Inr baseBalance, sb)"
    from a have a1: "price ord \<noteq> target" by simp
    from a have a2: "replacing" by simp
    have s'': "s' = snd (createOrder now newId replacement s3)"
      using steps [OF a1] a2 by simp
    have t3: "tickers s3 (opt_market replacement) = Some ticker"
      using assms(4) by (simp add: assms(12) f3)
    have l3: "\<not> lockdown s3" using assms(3) by (simp add: f3)
    have c3: "truthy_num (opt_autoCancel replacement) \<or> \<not> forceAutoCancel s3"
      using a by (simp add: assms(12) f3)
    have r3: "0 < opt_amount replacement" using a by (simp add: assms(12))
    have q3: "opt_price replacement = Some target" by (simp add: assms(12))
    have g3: "0 < target" using a by simp
    have y3: "opt_type replacement = Limit" by (simp add: assms(12))
    have m3: "quoteCurrencyOf (opt_market replacement) = Some q"
      using assms(5) by (simp add: assms(12))
    have b3: "baseCurrencyOf (opt_market replacement) = Some b"
      using assms(6) by (simp add: assms(12))
    have "placedId newId (market ord) Limit (side ord) (remaining ord) target s3 =
          placedId newId (market ord) Limit (side ord) (remaining ord) target s"
      by (rule placedId_frame) (simp_all add: f3)
    with a have i3: "placedId newId (opt_market replacement) Limit (opt_side replacement)
                       (opt_amount replacement) target s3 = Some rid"
      by (simp add: assms(12))
    from a have g4: "getBalance (Some q) s3 = (Inr quoteBalance, sq)" by simp
    from a have g5: "getBalance (Some b) sq = (Inr baseBalance, sb)" by simp
    show "openOrders s' =
              AList.update rid
                \<lparr> order_id = rid, timestamp = now, timestampClosed = None, status = ''open'',
                  market = market ord, order_type = Limit, side = side ord, price = target,
                  amount = (if side ord = Buy
                            then ddiv (min (dmul target (remaining ord))
                                           (Balance_free quoteBalance)) target
                            else min (Balance_free baseBalance) (remaining ord)),
                  fee = dmul (remaining ord) (state_fee s), filled = 0,
                  remaining = remaining ord, autoCancel = budget,
                  autoCancelAtFillPercentage = autoCancelAtFillPercentage ord,
                  autoCancelAtPriceLevel = Some (if side ord = Buy then Infinity else Finite 0),
                  sticky = Some True \<rparr>
                (openOrders s3)"
      unfolding s'' createOrder_limit_unfold [OF t3 l3 c3 r3 q3 g3 y3]
        placeOrder_limit_amount [OF y3 m3 b3 i3 g4 g5]
      by (simp add: assms(12) f3)
  qed
  from p1 steps p3 p4 show ?thesis by (intro conjI impI) auto
qed

theorem updateStickyOrder_cancel_and_replace_witness:
  "\<not> simulation stickyExchange
   \<and> price stickyBuyOrder = 100
   \<and> getOrderBook ''BTC/USDT'' (snd (syncOrderBook [''BTC/USDT''] stickyExchange)) =
       \<lparr> bids = [(100, 1), (99, 5)], asks = [(111, 2), (112, 3)] \<rparr>
   \<and> openOrders (snd (updateStickyOrder 10 ''a2'' stickyBuyOrder stickyExchange)) =
       [(''r7'',
         \<lparr> order_id = ''r7'', timestamp = 10, timestampClosed = None, status = ''open'',
           market = ''BTC/USDT'', order_type = Limit, side = Buy, price = 99, amount = 1,
           fee = dmul 1 (fl64 (1 / 10000)), filled = 0, remaining = 1, autoCancel = Some 990,
           autoCancelAtFillPercentage = Some 1, autoCancelAtPriceLevel = Some Infinity,
           sticky = Some True \<rparr>)]
   \<and> cancelledOrders (snd (updateStickyOrder 10 ''a2'' stickyBuyOrder stickyExchange)) = []"
proof -
  note f = stickyFixture
  let ?s1 = "snd (syncOrderBook [market stickyBuyOrder] stickyExchange)"
  let ?s3 = "(snd (cancelOrder 10 stickyBuyOrder ?s1))
               \<lparr>cancelledOrders :=
                  AList.delete (order_id stickyBuyOrder)
                    (cancelledOrders (snd (cancelOrder 10 stickyBuyOrder ?s1)))\<rparr>"
  let ?gq = "getBalance (Some ''USDT'') ?s3"
  let ?gb = "getBalance (Some ''BTC'') (snd ?gq)"
  have b: "baseCurrencyOf (market stickyBuyOrder) = Some ''BTC''"
    by (simp add: stickyBuyOrder_def openLimitOrder_def baseCurrencyOf_def js_index_def)
  note t = updateStickyOrder_cancel_and_replace
    [OF f(1-5) b refl refl refl refl refl refl refl refl,
      where now = 10 and newId = "''a2''" and rid = "''r7''"
        and quoteBalance = "projr (fst ?gq)" and sq = "snd ?gq"
        and baseBalance = "projr (fst ?gb)" and sb = "snd ?gb"]
  have e: "\<not> simulation stickyExchange"
    "price stickyBuyOrder = 100"
    "getOrderBook ''BTC/USDT'' (snd (syncOrderBook [''BTC/USDT''] stickyExchange)) =
       \<lparr> bids = [(100, 1), (99, 5)], asks = [(111, 2), (112, 3)] \<rparr>"
    by (simp_all add: sticky_run_defs)
  from t have "openOrders (snd (updateStickyOrder 10 ''a2'' stickyBuyOrder stickyExchange)) =
       [(''r7'',
         \<lparr> order_id = ''r7'', timestamp = 10, timestampClosed = None, status = ''open'',
           market = ''BTC/USDT'', order_type = Limit, side = Buy, price = 99, amount = 1,
           fee = dmul 1 (fl64 (1 / 10000)), filled = 0, remaining = 1, autoCancel = Some 990,
           autoCancelAtFillPercentage = Some 1, autoCancelAtPriceLevel = Some Infinity,
           sticky = Some True \<rparr>)]
   \<and> cancelledOrders (snd (updateStickyOrder 10 ''a2'' stickyBuyOrder stickyExchange)) = []"
    by (simp add: sticky_run_defs)
  with e show ?thesis by simp
qed

text \<open>
  C10: the options the sticky update passes to \<open>createOrder\<close> carry no price level, so
  whatever price level the repriced order had, the replacement stored in the open record
  has the default one: \<open>Infinity\<close> for a buy order, 0 for a sell order.
\<close>

theorem updateStickyOrder_resets_price_level:
  assumes "ord = ord0\<lparr>autoCancelAtPriceLevel := level\<rparr>"
    and "truthy_bool (sticky ord0)"
    and "status ord0 = ''open''"
    and "\<not> lockdown s"
    and "tickers s (market ord0) = Some ticker"
    and "quoteCurrencyOf (market ord0) = Some q"
    and "cancelAccepted ord s"
    and "target = stickyNewPrice ticker
                    (getOrderBook (market ord0) (snd (syncOrderBook [market ord0] s))) ord0"
    and "price ord0 \<noteq> target"
    and "\<not> truthy_num (autoCancel ord0) \<or> (\<exists>n. remainingAutoCancel now ord0 = Some n \<and> 0 < n)"
    and "truthy_num (remainingAutoCancel now ord0) \<or> \<not> forceAutoCancel s"
    and "remaining ord0 \<ge> getMinDealAmount (market ord0) s"
    and "0 < remaining ord0"
    and "0 < target"
    and "placedId newId (market ord0) Limit (side ord0) (remaining ord0) target s = Some rid"
  shows "opt_autoCancelAtPriceLevel (stickyReplacement ord target (remainingAutoCancel now ord))
           = None
    \<and> (\<exists>r. map_of (openOrders (snd (updateStickyOrder now newId ord s))) rid = Some r
          \<and> price r = target
          \<and> autoCancelAtPriceLevel r = Some (if side ord0 = Buy then Infinity else Finite 0))"
proof -
  have t: "stickyNewPrice ticker
             (getOrderBook (market ord) (snd (syncOrderBook [market ord] s))) ord = target"
    unfolding assms(1,8) by (simp add: stickyNewPrice_def Let_def)
  have rc: "remainingAutoCancel now ord = remainingAutoCancel now ord0"
    unfolding assms(1) by (simp add: remainingAutoCancel_def split: option.splits)
  have h1: "truthy_bool (sticky ord)" using assms(2) by (simp add: assms(1))
  have h2: "status ord = ''open''" using assms(3) by (simp add: assms(1))
  have h5: "tickers s (market ord) = Some ticker" using assms(5) by (simp add: assms(1))
  have h6: "quoteCurrencyOf (market ord) = Some q" using assms(6) by (simp add: assms(1))
  have h8: "price ord \<noteq> target" using assms(9) by (simp add: assms(1))
  have h9: "\<not> truthy_num (autoCancel ord) \<or> (\<exists>n. remainingAutoCancel now ord = Some n \<and> 0 < n)"
    using assms(10) unfolding rc by (simp add: assms(1))
  have h10: "truthy_num (remainingAutoCancel now ord) \<or> \<not> forceAutoCancel s"
    using assms(11) unfolding rc .
  have h11: "remaining ord \<ge> getMinDealAmount (market ord) s"
    using assms(12) by (simp add: assms(1))
  have h12: "0 < remaining ord" using assms(13) by (simp add: assms(1))
  have h14: "placedId newId (market ord) Limit (side ord) (remaining ord) target s = Some rid"
    using assms(15) by (simp add: assms(1))
  from updateStickyOrder_replaces
    [OF h1 h2 assms(4) h5 h6 assms(7) refl t [symmetric] h8 h9 h10 h11 h12 assms(14) h14]
  obtain amt where "openOrders (snd (updateStickyOrder now newId ord s)) =
           AList.update rid
             \<lparr> order_id = rid, timestamp = now, timestampClosed = None, status = ''open'',
               market = market ord, order_type = Limit, side = side ord,
               price = target, amount = amt, fee = dmul (remaining ord) (state_fee s), filled = 0,
               remaining = remaining ord, autoCancel = remainingAutoCancel now ord,
               autoCancelAtFillPercentage = autoCancelAtFillPercentage ord,
               autoCancelAtPriceLevel = Some (if side ord = Buy then Infinity else Finite 0),
               sticky = Some True \<rparr>
             (AList.delete (order_id ord) (openOrders s))"
    by blast
  then have "\<exists>r. map_of (openOrders (snd (updateStickyOrder now newId ord s))) rid = Some r
          \<and> price r = target
          \<and> autoCancelAtPriceLevel r = Some (if side ord0 = Buy then Infinity else Finite 0)"
    by (simp add: AList.update_conv' assms(1))
  then show ?thesis by (simp add: stickyReplacement_def)
qed

theorem updateStickyOrder_resets_price_level_witness:
  "autoCancelAtPriceLevel stickyBuyOrder = Some (Finite 120)
   \<and> (\<exists>r. map_of (openOrders (snd (updateStickyOrder 10 ''a2'' stickyBuyOrder stickyExchange)))
            ''r7'' = Some r
        \<and> price r = 99 \<and> autoCancelAtPriceLevel r = Some Infinity)"
proof -
  note f = stickyFixture
  have e: "stickyBuyOrder = stickyBuyOrder\<lparr>autoCancelAtPriceLevel := Some (Finite 120)\<rparr>"
    by (simp add: stickyBuyOrder_def)
  have t: "99 = stickyNewPrice (flatTicker 110)
                  (getOrderBook (market stickyBuyOrder)
                     (snd (syncOrderBook [market stickyBuyOrder] stickyExchange)))
                  stickyBuyOrder"
    by (simp add: f)
  have p: "price stickyBuyOrder \<noteq> 99" by (simp add: f)
  from updateStickyOrder_resets_price_level [OF e f(1-6) t p _ _ _ _ _ f(9), of 10]
  show ?thesis by (simp add: f)
qed

subsection \<open>update\<close>

text \<open>
  C9: when the exchange is not in lockdown and \<open>syncOrders\<close> succeeds, \<open>update\<close> throws if
  the ticker record has no entry under the market it was called with; when it is called
  without a market the lookup is under the key \<open>undefined\<close>, so it throws whenever the
  ticker record is keyed by market names (names with a slash).
\<close>

theorem update_throws_without_ticker:
  assumes "\<not> lockdown s"
    and "fst (syncOrders now m s) = True"
  shows "(tickers s (tickerKey m) = None \<longrightarrow> (\<exists>e. fst (update now genId m s) = Inl e))
    \<and> (m = None \<and> (\<forall>key. tickers s key \<noteq> None \<longrightarrow> CHR ''/'' \<in> set key)
          \<longrightarrow> (\<exists>e. fst (update now genId m s) = Inl e))"
proof -
  have main: "\<exists>e. fst (update now genId m s) = Inl e" if t: "tickers s (tickerKey m) = None"
  proof -
    obtain s1 where s1: "syncOrders now m s = (True, s1)"
      using assms(2) by (cases "syncOrders now m s") auto
    have t1: "tickers s1 = tickers s" using tickers_syncOrders [of now m s] s1 by simp
    obtain r2 s2 where f: "(if simulation s1 then fulfillLimitOrders now m s1 else (Inr (), s1)) = (r2, s2)"
      by (cases "if simulation s1 then fulfillLimitOrders now m s1 else (Inr (), s1)")
    have "s2 = snd (if simulation s1 then fulfillLimitOrders now m s1 else (Inr (), s1))"
      using f by simp
    then have t2: "tickers s2 = tickers s1" by simp
    have ac: "autoCancelOrders now m s2 = (Inl TickerUnavailable, s2)"
      using t t1 t2 by (simp add: autoCancelOrders_def getTicker_def)
    show ?thesis
      using assms(1) s1 f ac by (cases r2) (simp_all add: update_def)
  qed
  have undef: "tickers s (tickerKey None) = None"
    if "\<forall>key. tickers s key \<noteq> None \<longrightarrow> CHR ''/'' \<in> set key"
  proof (rule ccontr)
    assume "tickers s (tickerKey None) \<noteq> None"
    with that have "CHR ''/'' \<in> set (tickerKey None)" by blast
    then show False by (simp add: tickerKey_def)
  qed
  show ?thesis
  proof (intro conjI impI)
    assume "tickers s (tickerKey m) = None"
    then show "\<exists>e. fst (update now genId m s) = Inl e" by (rule main)
  next
    assume a: "m = None \<and> (\<forall>key. tickers s key \<noteq> None \<longrightarrow> CHR ''/'' \<in> set key)"
    then have "tickers s (tickerKey m) = None" using undef by simp
    then show "\<exists>e. fst (update now genId m s) = Inl e" by (rule main)
  qed
qed

theorem update_throws_without_ticker_witness:
  "\<not> lockdown (simulatedExchange ''BTC/USDT'' (flatTicker 100) ''USDT'' \<lparr> free = 200, used = 0 \<rparr>)
   \<and> fst (syncOrders 5 None
        (simulatedExchange ''BTC/USDT'' (flatTicker 100) ''USDT'' \<lparr> free = 200, used = 0 \<rparr>))
       = True
   \<and> tickers (simulatedExchange ''BTC/USDT'' (flatTicker 100) ''USDT'' \<lparr> free = 200, used = 0 \<rparr>)
       ''BTC/USDT'' = Some (flatTicker 100)
   \<and> (\<exists>e. fst (update 5 (\<lambda>ord. ''a2'') None
        (simulatedExchange ''BTC/USDT'' (flatTicker 100) ''USDT'' \<lparr> free = 200, used = 0 \<rparr>))
       = Inl e)"
proof -
  let ?s = "simulatedExchange ''BTC/USDT'' (flatTicker 100) ''USDT'' \<lparr> free = 200, used = 0 \<rparr>"
  have l: "\<not> lockdown ?s" by (simp add: simulatedExchange_def newExchange_def)
  have y: "fst (syncOrders 5 None ?s) = True"
    by (simp add: syncOrders_def simulatedExchange_def newExchange_def)
  have k: "\<forall>key. tickers ?s key \<noteq> None \<longrightarrow> CHR ''/'' \<in> set key"
    by (simp add: simulatedExchange_def newExchange_def)
  have t: "tickers ?s ''BTC/USDT'' = Some (flatTicker 100)"
    by (simp add: simulatedExchange_def newExchange_def)
  from update_throws_without_ticker [OF l y, of "\<lambda>ord. ''a2''"] k l y t
  show ?thesis by simp
qed

end
